theory Spec2Isabelle
  imports Main "HOL-Library.Word" "HOL-Library.Char_ord" "HOL-Library.List_Lexorder"
begin

text \<open>
  The repository is a collection of nine Jupyter notebooks that drive GPU data-science
  libraries. Its own code is glue: two preprocessing helpers defined in the asset
  classification notebook, and in every notebook a sequence of imports, downloads, library
  calls and prints. The first part of this theory models the helper \<open>categorize_columns\<close>
  as a function on columns, and the notebooks as programs of a small statement language
  with a semantics over the file system, the libraries' own storage and the log of what
  was run. The second part proves the properties. The other helper, \<open>normalize_conts\<close>, is
  floating-point arithmetic on the results of the dataframe library's \<open>mean\<close> and \<open>std\<close>
  reductions; its values depend on how the library rounds and sums, and it is not
  modelled.
\<close>

section \<open>The preprocessing of categorical columns\<close>

text \<open>
  \<^verbatim>\<open>
  def categorize_columns(cat_gdf):
      for col in cat_gdf.columns:
          cat_gdf[col] = cat_gdf[col].astype('str')
          cat_gdf[col] = cat_gdf[col].fillna("NA")
          cat_gdf[col] = LabelEncoder().fit_transform(cat_gdf[col])
          cat_gdf[col] = cat_gdf[col].astype('int16')
      return cat_gdf
  \<close>
  A dataframe is a list of named columns, and a cell of the input is a value or a null
  (\<open>None\<close>). The four calls are library calls:
  \<^item> \<open>astype('str')\<close> turns a value \<open>v\<close> into the string \<open>str v\<close>; both \<open>str\<close> and what the cast
    makes of a null (\<open>null_str\<close>) belong to the dataframe library and are parameters of the
    model: a cuDF cast keeps a null a null (\<open>null_str = None\<close>), which is what gives the
    \<open>fillna\<close> that follows something to fill, and a library that casts as pandas does turns
    it into a string such as \<open>nan\<close> (\<open>null_str = Some ''nan''\<close>);
  \<^item> \<open>fillna("NA")\<close> replaces the nulls that are left;
  \<^item> \<open>LabelEncoder().fit_transform\<close> numbers the sorted distinct labels from \<open>0\<close> and
    replaces each label by its number; strings are ordered as Python orders them, by code
    point;
  \<^item> \<open>astype('int16')\<close> keeps the low 16 bits of a code, read as a signed number.
  Each column is replaced by its codes, independently of the others.
\<close>

type_synonym 'c dataframe = "(string \<times> 'c list) list"

type_synonym 'v column = "'v option list"

definition astype_str :: "('v \<Rightarrow> string) \<Rightarrow> string option \<Rightarrow> 'v column \<Rightarrow> string column" where
  "astype_str str null_str col = map (\<lambda>c. case c of None \<Rightarrow> null_str | Some v \<Rightarrow> Some (str v)) col"

definition fillna :: "string \<Rightarrow> string column \<Rightarrow> string list" where
  "fillna s col = map (\<lambda>c. case c of None \<Rightarrow> s | Some x \<Rightarrow> x) col"

definition fit :: "'a::linorder list \<Rightarrow> 'a list" where
  "fit y = sort (remdups y)"

fun code_of :: "'a list \<Rightarrow> 'a \<Rightarrow> nat" where
  "code_of [] v = 0"
| "code_of (c # cs) v = (if c = v then 0 else Suc (code_of cs v))"

definition transform :: "'a list \<Rightarrow> 'a list \<Rightarrow> nat list" where
  "transform classes y = map (code_of classes) y"

definition fit_transform :: "'a::linorder list \<Rightarrow> nat list" where
  "fit_transform y = transform (fit y) y"

definition astype_int16 :: "nat list \<Rightarrow> 16 word list" where
  "astype_int16 col = map word_of_nat col"

definition categorize_column :: "('v \<Rightarrow> string) \<Rightarrow> string option \<Rightarrow> 'v column \<Rightarrow> 16 word list" where
  "categorize_column str null_str col =
     astype_int16 (fit_transform (fillna ''NA'' (astype_str str null_str col)))"

definition categorize_columns ::
  "('v \<Rightarrow> string) \<Rightarrow> string option \<Rightarrow> 'v option dataframe \<Rightarrow> 16 word dataframe" where
  "categorize_columns str null_str cat_gdf =
     map (\<lambda>(name, col). (name, categorize_column str null_str col)) cat_gdf"

text \<open>
  The string a cell is encoded by, after the first two steps, and a column of \<open>n\<close> distinct
  labels \<open>a\<close>, \<open>aa\<close>, \<open>aaa\<close>, ... to run the encoder on.
\<close>

definition stringify :: "('v \<Rightarrow> string) \<Rightarrow> string option \<Rightarrow> 'v option \<Rightarrow> string" where
  "stringify str null_str c =
     (case c of Some v \<Rightarrow> str v | None \<Rightarrow> (case null_str of Some s \<Rightarrow> s | None \<Rightarrow> ''NA''))"

definition distinct_labels :: "nat \<Rightarrow> string option list" where
  "distinct_labels n = map (\<lambda>k. Some (replicate (Suc k) CHR ''a'')) [0..<n]"

section \<open>The notebooks as programs\<close>

subsection \<open>Statements\<close>

text \<open>
  What a notebook cell can do, as far as the world outside the Python process can tell:
  \<^item> \<open>Import m ns\<close>: \<open>import m\<close> or \<open>from m import ns\<close>; it raises \<open>ImportError\<close> (Python's
    \<open>ModuleNotFoundError\<close> is a subclass and is not told apart) when \<open>m\<close> is not installed;
  \<^item> \<open>Shell c\<close>: the IPython shell escape \<open>!c\<close>, which never raises;
  \<^item> \<open>Try body x handler\<close>: \<open>try: body except x: handler\<close>;
  \<^item> \<open>IfNotExists p body\<close>: \<open>if not os.path.exists(p): body\<close>;
  \<^item> \<open>IfElse c yes no\<close>, where the condition is a constant of the notebook (its source text
    and its value) or the library test \<open>has_xgboost()\<close>;
  \<^item> \<open>For it body\<close>: a \<open>for\<close> loop over the iterable \<open>it\<close>;
  \<^item> \<open>S3Get remote local\<close>: the two lines
    \<open>fs = s3fs.S3FileSystem(anon=True); fs.get(remote, local)\<close>;
  \<^item> \<open>Makedirs d\<close>: \<open>os.makedirs(d)\<close>;
  \<^item> \<open>ReadFile targets callee path kwargs\<close>: a library call that reads the file at \<open>path\<close>,
    such as \<open>cudf.read_csv(path)\<close> or \<open>pickle.load(open(path, 'rb'))\<close>;
  \<^item> \<open>WriteFile callee src path\<close>: a library call that writes the object \<open>src\<close> to \<open>path\<close>,
    such as \<open>dd.save_model(path)\<close> or \<open>pickle.dump(src, open(path, 'wb'))\<close>;
  \<^item> \<open>Pretrained targets callee name kwargs\<close>: a library call that loads the pretrained
    checkpoint \<open>name\<close>, such as \<open>BertForTokenClassification.from_pretrained(name)\<close>; the
    library downloads the checkpoint into its cache when it is not there yet;
  \<^item> \<open>Call targets callee args kwargs\<close>: any other library call, \<open>targets = callee(args, kwargs)\<close>;
  \<^item> \<open>Print args\<close>: \<open>print(args)\<close>, and \<open>Display v\<close>: the value a cell ends with, shown as
    its output.
  A path is a string literal (\<open>Plain\<close>) or \<open>os.path.join(d, pre + now + suf)\<close> with the
  formatted time of the run (\<open>Stamped d pre suf\<close>).
\<close>

datatype exn = ImportError | FileNotFoundError | FileExistsError | OSError | LibraryError string

datatype arg = Name string | Text string | Lit string | Dict "(string \<times> arg) list"

datatype pexpr = Plain string | Stamped string string string

datatype cond = Const string bool | HasXgboost

datatype stmt =
    Import string "string list"
  | Shell string
  | Try "stmt list" exn "stmt list"
  | IfNotExists string "stmt list"
  | IfElse cond "stmt list" "stmt list"
  | For string "stmt list"
  | S3Get string string
  | Makedirs string
  | ReadFile "string list" string pexpr "(string \<times> arg) list"
  | WriteFile string string pexpr
  | Pretrained "string list" string string "(string \<times> arg) list"
  | Call "string list" string "arg list" "(string \<times> arg) list"
  | Print "arg list"
  | Display string

subsection \<open>The world and the environment\<close>

text \<open>
  The world is what a notebook can change: the files at the paths it names (a file holds an
  object fetched from S3, what a library call wrote there, or anything else), the
  directories, and the two places where the libraries keep files of their own, outside
  the paths a notebook names: the cache of pretrained checkpoints, by checkpoint name, and
  the installed packages, by the module they provide, which \<open>conda install\<close> writes and
  \<open>import\<close> reads. The environment is what it cannot: the objects of the S3 bucket, the
  checkpoints of the model hub, the modules a shell command installs, the clock, how many
  times each loop runs and which library calls raise. A run returns the exception that ended it, if any, the world it left
  and the log of what happened: the statements that were run, the paths that were tested
  and the exceptions that were raised.
\<close>

datatype content = Object string | Artifact string string | Other nat

datatype event = Ran stmt | Tested string | Raised exn

record env =
  bucket :: "string set"
  hub :: "string set"
  conda :: "string \<Rightarrow> string list"
  now :: string
  trips :: "string \<Rightarrow> nat"
  lib_raises :: "string \<Rightarrow> exn option"

record world =
  files :: "string \<rightharpoonup> content"
  dirs :: "string set"
  cache :: "string set"
  modules :: "string set"

type_synonym result = "exn option \<times> world \<times> event list"

definition outcome :: "result \<Rightarrow> exn option" where
  "outcome r = fst r"

definition final :: "result \<Rightarrow> world" where
  "final r = fst (snd r)"

definition events :: "result \<Rightarrow> event list" where
  "events r = snd (snd r)"

definition path_exists :: "world \<Rightarrow> string \<Rightarrow> bool" where
  "path_exists w p = (p \<in> dom (files w) \<or> p \<in> dirs w)"

fun evalp :: "env \<Rightarrow> pexpr \<Rightarrow> string" where
  "evalp e (Plain p) = p"
| "evalp e (Stamped d pre suf) = d @ ''/'' @ pre @ now e @ suf"

fun parent_exists :: "world \<Rightarrow> pexpr \<Rightarrow> bool" where
  "parent_exists w (Plain p) = True"
| "parent_exists w (Stamped d pre suf) = (d \<in> dirs w)"

fun evalc :: "world \<Rightarrow> cond \<Rightarrow> bool" where
  "evalc w (Const txt v) = v"
| "evalc w HasXgboost = (''xgboost'' \<in> modules w)"

definition finish :: "stmt \<Rightarrow> world \<Rightarrow> result" where
  "finish s w = (None, w, [Ran s])"

definition raise :: "stmt \<Rightarrow> exn \<Rightarrow> world \<Rightarrow> result" where
  "raise s x w = (Some x, w, [Ran s, Raised x])"

definition library :: "env \<Rightarrow> string \<Rightarrow> stmt \<Rightarrow> world \<Rightarrow> result" where
  "library e callee s w = (case lib_raises e callee of Some x \<Rightarrow> raise s x w | None \<Rightarrow> finish s w)"

definition after :: "event list \<Rightarrow> result \<Rightarrow> result" where
  "after evs r = (outcome r, final r, evs @ events r)"

subsection \<open>Running a notebook\<close>

text \<open>
  Statements run in order and the first exception that no handler catches ends the run, as
  \<open>Run All\<close> does. A library call that writes a file has opened it before it can raise. A
  handler catches the one exception class it names. A library call touches the file whose
  path it is given and the checkpoint whose name it is given, and a shell command the
  packages it installs; what else a library may write for itself while it runs (byte code,
  compiled kernels, logs) is not part of the world.
\<close>

fun exec :: "env \<Rightarrow> stmt \<Rightarrow> world \<Rightarrow> result"
and execs :: "env \<Rightarrow> stmt list \<Rightarrow> world \<Rightarrow> result"
and loop :: "env \<Rightarrow> nat \<Rightarrow> stmt list \<Rightarrow> world \<Rightarrow> result"
where
  "exec e (Import m ns) w =
     (if m \<in> modules w then finish (Import m ns) w else raise (Import m ns) ImportError w)"
| "exec e (Shell c) w = finish (Shell c) (w\<lparr>modules := modules w \<union> set (conda e c)\<rparr>)"
| "exec e (Try body x handler) w =
     (let r = execs e body w
      in if outcome r = Some x then after (events r) (execs e handler (final r)) else r)"
| "exec e (IfNotExists p body) w =
     (if path_exists w p then (None, w, [Tested p]) else after [Tested p] (execs e body w))"
| "exec e (IfElse c yes no) w = (if evalc w c then execs e yes w else execs e no w)"
| "exec e (For it body) w = loop e (trips e it) body w"
| "exec e (S3Get remote local) w =
     (if remote \<in> bucket e
      then finish (S3Get remote local) (w\<lparr>files := (files w)(local \<mapsto> Object remote)\<rparr>)
      else raise (S3Get remote local) FileNotFoundError w)"
| "exec e (Makedirs d) w =
     (if path_exists w d then raise (Makedirs d) FileExistsError w
      else finish (Makedirs d) (w\<lparr>dirs := insert d (dirs w)\<rparr>))"
| "exec e (ReadFile ts callee pe kw) w =
     (if evalp e pe \<in> dom (files w) then library e callee (ReadFile ts callee pe kw) w
      else raise (ReadFile ts callee pe kw) FileNotFoundError w)"
| "exec e (WriteFile callee src pe) w =
     (if parent_exists w pe
      then library e callee (WriteFile callee src pe)
             (w\<lparr>files := (files w)(evalp e pe \<mapsto> Artifact callee src)\<rparr>)
      else raise (WriteFile callee src pe) FileNotFoundError w)"
| "exec e (Pretrained ts callee name kw) w =
     (if name \<in> cache w then library e callee (Pretrained ts callee name kw) w
      else if name \<in> hub e
      then library e callee (Pretrained ts callee name kw) (w\<lparr>cache := insert name (cache w)\<rparr>)
      else raise (Pretrained ts callee name kw) OSError w)"
| "exec e (Call ts callee as kw) w = library e callee (Call ts callee as kw) w"
| "exec e (Print as) w = finish (Print as) w"
| "exec e (Display v) w = finish (Display v) w"
| "execs e [] w = (None, w, [])"
| "execs e (s # ss) w =
     (let r = exec e s w
      in if outcome r = None then after (events r) (execs e ss (final r)) else r)"
| "loop e 0 body w = (None, w, [])"
| "loop e (Suc n) body w =
     (let r = execs e body w
      in if outcome r = None then after (events r) (loop e n body (final r)) else r)"

subsection \<open>The notebooks\<close>

text \<open>
  Each notebook is the list of its statements in cell order. A statement of the model is an
  import, a shell escape, a call into an imported library, a file operation, a \<open>print\<close> or
  the value a cell displays; assignments of constants, indexing, slicing, arithmetic and the
  built-in list and string operations have no effect on the world and are left out, as are
  the cell magics \<open>%%time\<close> and \<open>%matplotlib inline\<close>. A function the notebook defines is
  written out where it is called. A call nested in \<open>print(...)\<close> and the expression a cell
  ends with are call statements with target \<open>_\<close>, followed by the \<open>Print\<close> or \<open>Display\<close> of
  \<open>_\<close>; \<open>cudf.read_csv(...).dropna()\<close> and \<open>ac.predict(...).to_array()\<close> are split at the
  inner call in the same way, and the other chains of method calls are one call named by the
  whole chain. A \<open>Name\<close> is a variable or an expression over variables, a \<open>Text\<close> a Python
  string literal (its quotes dropped), a \<open>Lit\<close> any other literal or expression, written as
  in the source but for quote characters: the string of one double quote is written
  \<open>chr(34)\<close> and the string of one tab character \<open>tab\<close>.
\<close>

definition S3_BASE_PATH :: string where
  "S3_BASE_PATH = ''rapidsai-data/cyber/clx''"

text \<open>The download guard every CLX notebook writes before reading a dataset file.\<close>

definition download :: "string \<Rightarrow> stmt" where
  "download f = IfNotExists f [S3Get (S3_BASE_PATH @ ''/'' @ f) f]"

text \<open>\<open>try: <import> except ImportError: !<command>; <import>\<close>\<close>

definition import_or_install :: "string \<Rightarrow> string list \<Rightarrow> string \<Rightarrow> stmt" where
  "import_or_install m ns command = Try [Import m ns] ImportError [Shell command, Import m ns]"

text \<open>\<open>XGBoost/XGBoost_Demo.ipynb\<close>. \<open>LOAD = False\<close>, so the data is simulated.\<close>

definition xgboost_demo :: "stmt list" where
  "xgboost_demo =
   [Shell ''nvidia-smi'',
    Shell ''nvcc --version'',
    Import ''numpy'' [], Print [Text ''nump Version:'', Name ''np.__version__''],
    Import ''cudf'' [], Print [Text ''cudf Version:'', Name ''cudf.__version__''],
    Import ''xgboost'' [], Print [Text ''XGBoost Version:'', Name ''xgb.__version__''],
    IfElse (Const ''LOAD'' False)
      [IfElse (Const ''n_rows >= 1e9'' False)
         [ReadFile [''df''] ''cudf.read_csv'' (Plain ''/tmp'') []]
         [ReadFile [''df''] ''cudf.read_csv'' (Plain ''/tmp'') [(''nrows'', Name ''n_rows'')]],
       Call [''dataset''] ''df.values.astype'' [Name ''np.float32''] []]
      [IfElse (Const ''numerical'' False)
         [Call [''features''] ''np.random.rand'' [Name ''m'', Name ''n''] []]
         [Call [''features''] ''np.random.randint'' [Lit ''2''] [(''size'', Lit ''(m, n)'')]],
       Call [''labels''] ''np.random.randint'' [Name ''k''] [(''size'', Name ''m'')],
       Call [''dataset''] ''np.c_[labels, features].astype'' [Name ''np.float32''] []],
    Print [Name ''dataset.shape''],
    Print [Text ''X_train: '', Name ''X_train.shape'', Name ''X_train.dtype'',
           Text ''y_train: '', Name ''y_train.shape'', Name ''y_train.dtype''],
    Print [Text ''X_validation'', Name ''X_validation.shape'', Name ''X_validation.dtype'',
           Text ''y_validation: '', Name ''y_validation.shape'', Name ''y_validation.dtype''],
    Print [Text ''X_train proportion:'', Lit ''X_train.shape[0] / total''],
    Print [Text ''X_validation proportion:'', Lit ''X_validation.shape[0] / total''],
    Call [''dtrain''] ''xgb.DMatrix'' [Name ''X_train''] [(''label'', Name ''y_train'')],
    Call [''dvalidation''] ''xgb.DMatrix'' [Name ''X_validation'']
      [(''label'', Name ''y_validation'')],
    Print [Name ''params''],
    Call [''bst''] ''xgb.train''
      [Dict [(''silent'', Lit ''1''), (''tree_method'', Text ''gpu_hist''), (''n_gpus'', Lit ''1''),
             (''eval_metric'', Text ''auc''), (''objective'', Text ''binary:logistic'')],
       Name ''dtrain'', Name ''num_round'', Name ''evallist''] []]"

text \<open>\<open>clx/cybert/cybert_example_training.ipynb\<close>\<close>

definition APACHE_SAMPLE_CSV :: string where
  "APACHE_SAMPLE_CSV = ''apache_sample_1k.csv''"

definition cybert_example_training :: "stmt list" where
  "cybert_example_training =
   [Import ''os'' [''path''],
    Import ''torch'' [], Import ''torch.nn'' [], Import ''torch.nn.functional'' [],
    Import ''torch.optim'' [''Adam''],
    Import ''torch.utils.data'' [''TensorDataset'', ''DataLoader''],
    Import ''torch.utils.data.dataset'' [''random_split''],
    Import ''torch.utils.dlpack'' [''from_dlpack''],
    Import ''seqeval.metrics'' [''classification_report'', ''accuracy_score'', ''f1_score''],
    Import ''transformers'' [''BertForTokenClassification''],
    Import ''tqdm'' [''tqdm'', ''trange''],
    Import ''collections'' [''defaultdict''],
    Import ''pandas'' [], Import ''numpy'' [], Import ''cupy'' [], Import ''cudf'' [],
    import_or_install ''seqeval'' [] ''conda install -c conda-forge -y seqeval'',
    import_or_install ''s3fs'' [] ''conda install -c conda-forge -y s3fs'',
    download APACHE_SAMPLE_CSV,
    ReadFile [''logs_df''] ''cudf.read_csv'' (Plain APACHE_SAMPLE_CSV) [],
    Call [''_''] ''logs_df.sample'' [Lit ''1''] [], Display ''_'',
    Print [Name ''logs_df.raw.loc[10]''],
    Call [''logs_df[raw_preprocess]''] ''logs_df.raw.str.replace'' [Lit ''chr(34)'', Text []] [],
    Call [''cols''] ''logs_df.columns.values.tolist'' [] [],
    Print [Name ''labels[10]''],
    Call [''log_list''] ''logs_df.raw_preprocess.to_arrow().to_pylist'' [] [],
    For ''zip(log_list, label_list)''
      [Call [''words''] ''cudf.Series'' [Lit ''log.split()''] [],
       ReadFile [''subword_counts''] ''words.str.subword_tokenize''
         (Plain ''resources/bert-base-cased-hash.txt'')
         [(''max_rows_tensor'', Name ''words_size''), (''do_lower'', Lit ''False''),
          (''do_truncate'', Lit ''False'')]],
    Print [Name ''subword_labels[10]''],
    Print [Name ''label2id''],
    Call [''label_tensor''] ''torch.tensor(int_labels).to'' [Text ''cuda''] [],
    Call [''num_bytes''] ''strings.str.byte_count().sum'' [] [],
    ReadFile [''token_ids'', ''mask''] ''strings.str.subword_tokenize''
      (Plain ''resources/bert-base-cased-hash.txt'')
      [(''max_rows_tensor'', Name ''num_strings''), (''do_lower'', Lit ''False''),
       (''do_truncate'', Lit ''True'')],
    Call [''input_ids''] ''from_dlpack''
      [Lit ''token_ids.reshape(num_strings,256).astype(cupy.float).toDlpack()''] [],
    Call [''attention_mask''] ''from_dlpack''
      [Lit ''mask.reshape(num_strings,256).astype(cupy.float).toDlpack()''] [],
    Call [''input_ids''] ''input_ids.type'' [Name ''torch.long''] [],
    Call [''attention_masks''] ''attention_mask.type'' [Name ''torch.long''] [],
    Call [''dataset''] ''TensorDataset''
      [Name ''input_ids'', Name ''attention_masks'', Name ''label_tensor''] [],
    Call [''training_dataset'', ''validation_dataset''] ''random_split''
      [Name ''dataset'', Lit ''(int(dataset_size*.8), int(dataset_size*.2))''] [],
    Call [''train_dataloader''] ''DataLoader'' []
      [(''dataset'', Name ''training_dataset''), (''shuffle'', Lit ''True''),
       (''batch_size'', Lit ''32'')],
    Call [''val_dataloader''] ''DataLoader'' []
      [(''dataset'', Name ''validation_dataset''), (''shuffle'', Lit ''False''),
       (''batch_size'', Lit ''1'')],
    Pretrained [''model''] ''BertForTokenClassification.from_pretrained'' ''bert-base-cased''
      [(''num_labels'', Lit ''len(label2id)'')],
    Call [] ''model.cuda'' [] [],
    Call [''model''] ''nn.DataParallel'' [Name ''model''] [],
    IfElse (Const ''FULL_FINETUNING'' True)
      [Call [''param_optimizer''] ''model.named_parameters'' [] []]
      [Call [''param_optimizer''] ''model.classifier.named_parameters'' [] []],
    Call [''optimizer''] ''Adam'' [Name ''optimizer_grouped_parameters''] [(''lr'', Lit ''3e-5'')],
    For ''trange(epochs, desc=Epoch)''
      [Call [] ''model.train'' [] [],
       For ''enumerate(train_dataloader)''
         [Call [''loss''] ''model'' [Name ''b_input_ids'']
            [(''token_type_ids'', Lit ''None''), (''attention_mask'', Name ''b_input_mask''),
             (''labels'', Name ''b_labels'')],
          Call [] ''loss.sum().backward'' [] [],
          Call [] ''loss.sum().item'' [] [],
          Call [] ''b_input_ids.size'' [Lit ''0''] [],
          Call [] ''torch.nn.utils.clip_grad_norm_'' []
            [(''parameters'', Lit ''model.parameters()''), (''max_norm'', Name ''max_grad_norm'')],
          Call [] ''optimizer.step'' [] [],
          Call [] ''model.zero_grad'' [] []],
       Print [Text ''Train loss: {}'', Lit ''tr_loss/nb_tr_steps'']],
    Call [] ''model.eval'' [] [],
    For ''enumerate(val_dataloader)''
      [Call [] ''torch.no_grad'' [] [],
       Call [''outputs''] ''model'' [Name ''input_ids'']
         [(''token_type_ids'', Lit ''None''), (''attention_mask'', Name ''input_mask'')],
       Call [''logits''] ''torch.argmax'' [Lit ''F.log_softmax(logits,dim=2)'']
         [(''dim'', Lit ''2'')],
       Call [''logits''] ''logits.detach().cpu().numpy'' [] [],
       Call [''label_ids''] ''label_ids.detach().cpu().numpy'' [] [],
       Call [''input_mask''] ''input_mask.detach().cpu().numpy'' [] []],
    Call [''_''] ''f1_score'' [Name ''y_true'', Name ''y_pred''] [],
    Print [Text ''f1 score: %f'', Name ''_''],
    Call [''_''] ''accuracy_score'' [Name ''y_true'', Name ''y_pred''] [],
    Print [Text ''Accuracy score: %f'', Name ''_''],
    Call [''_''] ''classification_report'' [Name ''y_true'', Name ''y_pred'']
      [(''digits'', Lit ''3'')],
    Print [Name ''_'']]"

text \<open>\<open>clx/phish_detection/Phishing_Detection_using_Bert_CLX.ipynb\<close>\<close>

definition CLAIR_TSV :: string where
  "CLAIR_TSV = ''Phishing_Dataset_Clair_Collection.tsv''"

definition SPAM_TSV :: string where
  "SPAM_TSV = ''spam_assassin_spam_200_20021010.tsv''"

definition EASY_HAM_TSV :: string where
  "EASY_HAM_TSV = ''spam_assassin_easyham_200_20021010.tsv''"

definition HARD_HAM_TSV :: string where
  "HARD_HAM_TSV = ''spam_assassin_hardham_200_20021010.tsv''"

definition ENRON_TSV :: string where
  "ENRON_TSV = ''enron_10000.tsv''"

definition tsv_options :: "(string \<times> arg) list" where
  "tsv_options =
     [(''delimiter'', Lit ''tab''), (''header'', Lit ''None''), (''names'', Lit ''[label, email]'')]"

definition train_and_evaluate :: "string \<Rightarrow> stmt list" where
  "train_and_evaluate df =
   [Call [''X_train'', ''X_test'', ''y_train'', ''y_test''] ''train_test_split''
      [Name df, Text ''label''] [(''train_size'', Lit ''0.8'')],
    Call [] ''seq_classifier.train_model'' [Name ''X_train[email]'', Name ''y_train'']
      [(''epochs'', Lit ''1'')],
    Call [''_''] ''seq_classifier.evaluate_model'' [Name ''X_test[email]'', Name ''y_test''] [],
    Display ''_'']"

definition phishing_detection :: "stmt list" where
  "phishing_detection =
   [Import ''cudf'' [],
    Import ''cuml.preprocessing.model_selection'' [''train_test_split''],
    Import ''os'' [''path''],
    import_or_install ''clx.analytics.sequence_classifier'' [''SequenceClassifier'']
      ''conda install -c rapidsai -y clx'',
    import_or_install ''s3fs'' [] ''conda install -c conda-forge -y s3fs'',
    download CLAIR_TSV,
    ReadFile [''_''] ''cudf.read_csv'' (Plain CLAIR_TSV) tsv_options,
    Call [''dfclair''] ''_.dropna'' [] [],
    download SPAM_TSV,
    ReadFile [''dfspam''] ''cudf.read_csv'' (Plain SPAM_TSV) tsv_options,
    download EASY_HAM_TSV,
    ReadFile [''dfeasyham''] ''cudf.read_csv'' (Plain EASY_HAM_TSV) tsv_options,
    download HARD_HAM_TSV,
    ReadFile [''dfhardham''] ''cudf.read_csv'' (Plain HARD_HAM_TSV) tsv_options,
    download ENRON_TSV,
    ReadFile [''dfenron''] ''cudf.read_csv'' (Plain ENRON_TSV) tsv_options,
    Call [''seq_classifier''] ''SequenceClassifier'' [] [],
    Pretrained [] ''seq_classifier.init_model'' ''bert-base-uncased'' []]
   @ train_and_evaluate ''dfclair''
   @ [Call [''df_assassin''] ''cudf.concat'' [Lit ''[dfhardham,dfeasyham,dfspam]'']
        [(''ignore_index'', Lit ''True'')]]
   @ train_and_evaluate ''df_assassin''
   @ [Call [''df_total''] ''cudf.concat'' [Lit ''[dfhardham,dfeasyham,dfspam,dfclair]'']
        [(''ignore_index'', Lit ''True'')]]
   @ train_and_evaluate ''df_total''
   @ [Call [''df_total''] ''cudf.concat'' [Lit ''[dfhardham,dfeasyham,dfspam,dfclair,dfenron]'']
        [(''ignore_index'', Lit ''True'')]]
   @ train_and_evaluate ''df_total''"

text \<open>
  \<open>cuml/forest_inference_demo.ipynb\<close>, first notebook of the file. \<open>train_xgboost_model\<close>
  and \<open>predict_xgboost_model\<close> are written out at their calls; \<open>model_path = 'xgb.model'\<close>.
\<close>

definition model_path :: string where
  "model_path = ''xgb.model''"

definition forest_inference_demo :: "stmt list" where
  "forest_inference_demo =
   [Import ''numpy'' [], Import ''os'' [],
    Import ''cuml.test.utils'' [''array_equal''],
    Import ''cuml.common.import_utils'' [''has_xgboost''],
    Import ''sklearn.datasets'' [''make_classification''],
    Import ''sklearn.metrics'' [''accuracy_score''],
    Import ''sklearn.model_selection'' [''train_test_split''],
    Import ''cuml'' [''ForestInference''],
    import_or_install ''pytest'' [] ''conda install -c conda-forge -y pytest'',
    IfElse HasXgboost
      [Import ''xgboost'' []]
      [Shell ''conda install -c -y conda-forge xgboost'', Import ''xgboost'' []],
    Call [''random_state''] ''np.random.RandomState'' [Lit ''43210''] [],
    Call [''X'', ''y''] ''make_classification'' []
      [(''n_samples'', Name ''n_rows''), (''n_features'', Name ''n_columns''),
       (''n_informative'', Lit ''int(n_columns/5)''), (''n_classes'', Name ''n_categories''),
       (''random_state'', Name ''random_state'')],
    Call [''X''] ''X.astype'' [Name ''np.float32''] [],
    Call [''y''] ''y.astype'' [Name ''np.float32''] [],
    Call [''X_train'', ''X_validation'', ''y_train'', ''y_validation''] ''train_test_split''
      [Name ''X'', Name ''y''] [(''train_size'', Name ''train_size'')],
    Call [''dtrain''] ''xgb.DMatrix'' [Name ''X_train''] [(''label'', Name ''y_train'')],
    Call [''bst''] ''xgb.train''
      [Dict [(''silent'', Lit ''1''), (''eval_metric'', Text ''error''),
             (''objective'', Text ''binary:logistic''), (''max_depth'', Lit ''25'')],
       Name ''dtrain'', Name ''num_rounds''] [],
    WriteFile ''bst.save_model'' ''bst'' (Plain model_path),
    Call [''dvalidation''] ''xgb.DMatrix'' [Name ''X_validation'']
      [(''label'', Name ''y_validation'')],
    Call [''xgb_preds''] ''xgb_model.predict'' [Name ''dvalidation''] [],
    Call [''xgb_preds''] ''np.around'' [Name ''xgb_preds''] [],
    ReadFile [''fm''] ''ForestInference.load'' (Plain model_path)
      [(''algo'', Text ''BATCH_TREE_REORG''), (''output_class'', Lit ''True''),
       (''threshold'', Lit ''0.50''), (''model_type'', Text ''xgboost'')],
    Call [''fil_preds''] ''fm.predict'' [Name ''X_validation''] [],
    Print [Text ''The shape of predictions obtained from xgboost : '',
           Name ''(trained_model_preds).shape''],
    Print [Text ''The shape of predictions obtained from FIL : '', Name ''(fil_preds).shape''],
    Call [''_''] ''array_equal'' [Name ''trained_model_preds'', Name ''fil_preds''] [],
    Print [Text ''Are the predictions for xgboost and FIL the same : '', Name ''_'']]"

text \<open>The K-Means demo, second notebook of the file \<open>cuml/forest_inference_demo.ipynb\<close>.\<close>

definition kmeans_demo :: "stmt list" where
  "kmeans_demo =
   [Import ''cudf'' [], Import ''cupy'' [], Import ''matplotlib.pyplot'' [],
    Import ''cuml.cluster'' [''KMeans''],
    Import ''cuml.datasets'' [''make_blobs''],
    Import ''sklearn.cluster'' [''KMeans''],
    Import ''sklearn.metrics'' [''adjusted_rand_score''],
    import_or_install ''matplotlib.pyplot'' [] ''conda install -c conda-forge -y matplotlib'',
    Call [''device_data'', ''device_labels''] ''make_blobs'' []
      [(''n_samples'', Name ''n_samples''), (''n_features'', Name ''n_features''),
       (''centers'', Name ''n_clusters''), (''random_state'', Name ''random_state''),
       (''cluster_std'', Lit ''0.1'')],
    Call [''device_data''] ''cudf.DataFrame'' [Name ''device_data''] [],
    Call [''device_labels''] ''cudf.Series'' [Name ''device_labels''] [],
    Call [''host_data''] ''device_data.to_pandas'' [] [],
    Call [''host_labels''] ''device_labels.to_pandas'' [] [],
    Call [''kmeans_sk''] ''skKMeans'' []
      [(''init'', Text ''k-means++''), (''n_clusters'', Name ''n_clusters''),
       (''n_jobs'', Lit ''-1''), (''random_state'', Name ''random_state'')],
    Call [] ''kmeans_sk.fit'' [Name ''host_data''] [],
    Call [''kmeans_cuml''] ''cuKMeans'' []
      [(''init'', Text ''k-means||''), (''n_clusters'', Name ''n_clusters''),
       (''oversampling_factor'', Lit ''40''), (''random_state'', Name ''random_state'')],
    Call [] ''kmeans_cuml.fit'' [Name ''device_data''] [],
    Call [''fig''] ''plt.figure'' [] [(''figsize'', Lit ''(16, 10)'')],
    Call [] ''plt.scatter'' [Name ''host_data.iloc[:, 0]'', Name ''host_data.iloc[:, 1]'']
      [(''c'', Name ''host_labels''), (''s'', Lit ''50''), (''cmap'', Text ''viridis'')],
    Call [] ''plt.scatter'' [Name ''centers_sk[:,0]'', Name ''centers_sk[:,1]'']
      [(''c'', Text ''blue''), (''s'', Lit ''100''), (''alpha'', Lit ''.5'')],
    Call [] ''plt.scatter''
      [Lit ''cupy.asnumpy(centers_cuml[0].values)'', Lit ''cupy.asnumpy(centers_cuml[1].values)'']
      [(''facecolors'', Text ''none''), (''edgecolors'', Text ''red''), (''s'', Lit ''100'')],
    Call [] ''plt.title'' [Text ''cuml and sklearn kmeans clustering''] [],
    Call [] ''plt.show'' [] [],
    Call [''cuml_score''] ''adjusted_rand_score''
      [Name ''host_labels'', Lit ''kmeans_cuml.labels_.to_array()''] [],
    Call [''sk_score''] ''adjusted_rand_score''
      [Name ''host_labels'', Name ''kmeans_sk.labels_''] [],
    Print [Text ''compare kmeans: cuml vs sklearn labels_ are '', Name ''passed'']]"

text \<open>\<open>cuml/nearest_neighbors_demo.ipynb\<close>\<close>

definition nearest_neighbors_demo :: "stmt list" where
  "nearest_neighbors_demo =
   [Import ''cudf'' [], Import ''numpy'' [],
    Import ''cuml.datasets'' [''make_blobs''],
    Import ''cuml.neighbors'' [''NearestNeighbors''],
    Import ''sklearn.neighbors'' [''NearestNeighbors''],
    Call [''device_data'', ''_''] ''make_blobs'' []
      [(''n_samples'', Name ''n_samples''), (''n_features'', Name ''n_features''),
       (''centers'', Lit ''5''), (''random_state'', Name ''random_state'')],
    Call [''device_data''] ''cudf.DataFrame'' [Name ''device_data''] [],
    Call [''host_data''] ''device_data.to_pandas'' [] [],
    Call [''knn_sk''] ''skNearestNeighbors'' []
      [(''algorithm'', Text ''brute''), (''n_jobs'', Lit ''-1'')],
    Call [] ''knn_sk.fit'' [Name ''host_data''] [],
    Call [''D_sk'', ''I_sk''] ''knn_sk.kneighbors''
      [Name ''host_data[:n_query]'', Name ''n_neighbors''] [],
    Call [''knn_cuml''] ''cuNearestNeighbors'' [] [],
    Call [] ''knn_cuml.fit'' [Name ''device_data''] [],
    Call [''D_cuml'', ''I_cuml''] ''knn_cuml.kneighbors''
      [Name ''device_data[:n_query]'', Name ''n_neighbors''] [],
    Call [''passed''] ''np.allclose'' [Name ''D_sk'', Lit ''D_cuml.as_gpu_matrix()'']
      [(''atol'', Lit ''1e-3'')],
    Print [Text ''compare knn: cuml vs sklearn distances %s'', Name ''passed''],
    Call [''sk_sorted''] ''np.sort'' [Name ''I_sk''] [(''axis'', Lit ''1'')],
    Call [''cuml_sorted''] ''np.sort'' [Lit ''I_cuml.as_gpu_matrix()''] [(''axis'', Lit ''1'')],
    Print [Text ''compare knn: cuml vs sklearn indexes %s'', Name ''passed'']]"

text \<open>\<open>cuml/random_forest_demo.ipynb\<close>\<close>

definition filename :: string where
  "filename = ''cuml_random_forest_model.sav''"

definition forest_options :: "(string \<times> arg) list" where
  "forest_options =
     [(''n_estimators'', Lit ''40''), (''max_depth'', Lit ''16''), (''max_features'', Lit ''1.0''),
      (''random_state'', Lit ''10'')]"

definition random_forest_demo :: "stmt list" where
  "random_forest_demo =
   [Import ''cudf'' [], Import ''numpy'' [], Import ''pandas'' [], Import ''pickle'' [],
    Import ''cuml.ensemble'' [''RandomForestClassifier''],
    Import ''cuml.metrics'' [''accuracy_score''],
    Import ''sklearn.ensemble'' [''RandomForestClassifier''],
    Import ''sklearn.datasets'' [''make_classification''],
    Import ''sklearn.model_selection'' [''train_test_split''],
    Call [''X'', ''y''] ''make_classification'' []
      [(''n_samples'', Name ''n_samples''), (''n_features'', Name ''n_features''),
       (''n_informative'', Name ''n_info''), (''random_state'', Lit ''123''),
       (''n_classes'', Lit ''2'')],
    Call [''X''] ''pd.DataFrame'' [Lit ''X.astype(data_type)''] [],
    Call [''y''] ''pd.Series'' [Lit ''y.astype(np.int32)''] [],
    Call [''X_train'', ''X_test'', ''y_train'', ''y_test''] ''train_test_split''
      [Name ''X'', Name ''y''] [(''test_size'', Lit ''0.2''), (''random_state'', Lit ''0'')],
    Call [''X_cudf_train''] ''cudf.DataFrame.from_pandas'' [Name ''X_train''] [],
    Call [''X_cudf_test''] ''cudf.DataFrame.from_pandas'' [Name ''X_test''] [],
    Call [''y_cudf_train''] ''cudf.Series'' [Name ''y_train.values''] [],
    Call [''sk_model''] ''skrfc'' [] forest_options,
    Call [] ''sk_model.fit'' [Name ''X_train'', Name ''y_train''] [],
    Call [''sk_predict''] ''sk_model.predict'' [Name ''X_test''] [],
    Call [''sk_acc''] ''accuracy_score'' [Name ''y_test'', Name ''sk_predict''] [],
    Call [''cuml_model''] ''curfc'' [] forest_options,
    Call [] ''cuml_model.fit'' [Name ''X_cudf_train'', Name ''y_cudf_train''] [],
    Call [''fil_preds_orig''] ''cuml_model.predict'' [Name ''X_cudf_test''] [],
    Call [''fil_acc_orig''] ''accuracy_score''
      [Lit ''y_test.to_numpy()'', Name ''fil_preds_orig''] [],
    WriteFile ''pickle.dump'' ''cuml_model'' (Plain filename),
    ReadFile [''pickled_cuml_model''] ''pickle.load'' (Plain filename) [],
    Call [''pred_after_pickling''] ''pickled_cuml_model.predict'' [Name ''X_cudf_test''] [],
    Call [''fil_acc_after_pickling''] ''accuracy_score''
      [Lit ''y_test.to_numpy()'', Name ''pred_after_pickling''] [],
    Print [Text ''CUML accuracy of the RF model before pickling: %s'', Name ''fil_acc_orig''],
    Print [Text ''CUML accuracy of the RF model after pickling: %s'',
           Name ''fil_acc_after_pickling''],
    Print [Text ''SKL accuracy: %s'', Name ''sk_acc''],
    Print [Text ''CUML accuracy before pickling: %s'', Name ''fil_acc_orig'']]"

text \<open>
  The DGA detection notebook (\<open>unnamed/part_000\<close>). \<open>model_filepath\<close> is
  \<open>os.path.join(MODELS_DIR, "rnn_classifier_{}.bin".format(now.strftime("%Y-%m-%d_%H_%M_%S")))\<close>.
\<close>

definition INPUT_CSV :: string where
  "INPUT_CSV = ''benign_and_dga_domains.csv''"

definition MODELS_DIR :: string where
  "MODELS_DIR = ''models''"

definition model_filepath :: pexpr where
  "model_filepath = Stamped MODELS_DIR ''rnn_classifier_'' ''.bin''"

definition make_models_dir :: stmt where
  "make_models_dir =
     IfNotExists MODELS_DIR
       [Print [Text ''Creating directory {}'', Name ''MODELS_DIR''], Makedirs MODELS_DIR]"

definition dga_detection :: "stmt list" where
  "dga_detection =
   [Import ''os'' [], Import ''cudf'' [], Import ''torch'' [],
    import_or_install ''s3fs'' [] ''conda install -c conda-forge -y s3fs'',
    import_or_install ''clx'' [] ''conda install -c rapidsai -y clx'',
    Import ''numpy'' [],
    Import ''datetime'' [''datetime''],
    Import ''sklearn.metrics'' [''accuracy_score'', ''average_precision_score''],
    Import ''clx.analytics.dga_detector'' [''DGADetector''],
    Import ''clx.utils.data.dataloader'' [''DataLoader''],
    Import ''clx.analytics.dga_dataset'' [''DGADataset''],
    Import ''cuml.preprocessing.model_selection'' [''train_test_split''],
    download INPUT_CSV,
    ReadFile [''gdf''] ''cudf.read_csv'' (Plain INPUT_CSV) [],
    Call [''dd''] ''DGADetector'' [] [(''lr'', Name ''LR'')],
    Call [] ''dd.init_model'' []
      [(''n_layers'', Name ''N_LAYERS''), (''char_vocab'', Name ''CHAR_VOCAB''),
       (''hidden_size'', Name ''HIDDEN_SIZE''), (''n_domain_type'', Name ''N_DOMAIN_TYPE'')],
    Call [] ''dd.train_model'' [Name ''train_data'', Name ''labels'']
      [(''batch_size'', Name ''BATCH_SIZE''), (''epochs'', Name ''EPOCHS''),
       (''train_size'', Lit ''0.7'')],
    make_models_dir,
    Call [''now''] ''datetime.now'' [] [],
    WriteFile ''dd.save_model'' ''dd'' model_filepath,
    Print [Text ''Pretrained model saved to location: {}'', Name ''model_filepath''],
    Call [''dga_detector''] ''DGADetector'' [] [],
    ReadFile [] ''dga_detector.load_model'' model_filepath [],
    Call [''domain_train'', ''domain_test'', ''type_train'', ''type_test''] ''train_test_split''
      [Name ''gdf'', Text ''type''] [(''train_size'', Lit ''0.7'')],
    Call [''test_df''] ''cudf.DataFrame'' [] [],
    Call [''test_df[type]''] ''type_test.reset_index'' [] [(''drop'', Lit ''True'')],
    Call [''test_df[domain]''] ''domain_test.reset_index'' [] [(''drop'', Lit ''True'')],
    Call [''test_dataset''] ''DGADataset'' [Name ''test_df''] [],
    Call [''test_dataloader''] ''DataLoader'' [Name ''test_dataset'']
      [(''batchsize'', Name ''BATCH_SIZE'')],
    For ''test_dataloader.get_chunks()''
      [Call [] ''dga_detector.predict'' [Name ''chunk[domain]''] []],
    Call [''pred_results''] ''np.concatenate'' [Name ''pred_results''] [],
    Call [''true_results''] ''np.concatenate'' [Name ''true_results''] [],
    Call [''accuracy_score''] ''accuracy_score'' [Name ''pred_results'', Name ''true_results''] [],
    Print [Text ''Model accuracy: %s'', Name ''accuracy_score''],
    Call [''average_precision''] ''average_precision_score''
      [Name ''true_results'', Name ''pred_results''] [],
    Print [Text ''Average precision score: {0:0.3f}'', Name ''average_precision'']]"

text \<open>
  The asset classification notebook (\<open>unnamed/part_001\<close>). Its cells that call
  \<open>categorize_columns\<close> and \<open>normalize_conts\<close> are commented out.
\<close>

definition WINEVT_PREPROC_CSV :: string where
  "WINEVT_PREPROC_CSV = ''win_events_features_preproc.csv''"

definition asset_classification :: "stmt list" where
  "asset_classification =
   [Import ''cudf'' [],
    Import ''cuml.preprocessing'' [''train_test_split''],
    Import ''cuml.preprocessing'' [''LabelEncoder''],
    Import ''torch'' [],
    Import ''sklearn.metrics'' [''accuracy_score'', ''f1_score'', ''confusion_matrix''],
    Import ''pandas'' [],
    Import ''os'' [''path''],
    import_or_install ''s3fs'' [] ''conda install -c conda-forge -y s3fs'',
    import_or_install ''clx.analytics.asset_classification'' [''AssetClassification'']
      ''conda install -c rapidsai -y clx'',
    Call [''ac''] ''AssetClassification'' [] [],
    download WINEVT_PREPROC_CSV,
    ReadFile [''win_events_gdf''] ''cudf.read_csv'' (Plain ''win_events_features_preproc.csv'') [],
    Call [''_''] ''win_events_gdf.head'' [] [], Display ''_'',
    Call [''X_train'', ''X_test'', ''Y_train'', ''Y_test''] ''train_test_split''
      [Name ''win_events_gdf'', Text ''label''] [(''train_size'', Lit ''0.9'')],
    Call [''_''] ''X_train.head'' [] [], Display ''_'',
    Call [''_''] ''Y_train.unique'' [] [], Display ''_'',
    Call [''_''] ''Y_test.unique'' [] [], Display ''_'',
    Call [] ''ac.train_model''
      [Name ''X_train'', Name ''cat_cols'', Name ''cont_cols'', Text ''label'',
       Name ''batch_size'', Name ''epochs''] [(''lr'', Lit ''0.01''), (''wd'', Lit ''0.0'')],
    Call [''_''] ''ac.predict'' [Name ''X_test'', Name ''cat_cols'', Name ''cont_cols''] [],
    Call [''pred_results''] ''_.to_array'' [] [],
    Call [''true_results''] ''Y_test.to_array'' [] [],
    Call [''f1_score_''] ''f1_score'' [Name ''pred_results'', Name ''true_results'']
      [(''average'', Text ''micro'')],
    Print [Text ''micro F1 score: %s'', Name ''f1_score_''],
    Call [] ''torch.cuda.empty_cache'' [] [],
    Call [''a''] ''confusion_matrix'' [Name ''true_results'', Name ''pred_results''] [],
    Call [''_''] ''pd.DataFrame'' [Name ''a'']
      [(''index'', Name ''labels''), (''columns'', Name ''labels'')],
    Display ''_'']"

definition notebooks :: "stmt list list" where
  "notebooks =
     [xgboost_demo, cybert_example_training, phishing_detection, forest_inference_demo,
      kmeans_demo, nearest_neighbors_demo, random_forest_demo, dga_detection,
      asset_classification]"


subsection \<open>Reading a notebook's text\<close>

text \<open>
  The statements of a program, with the bodies of its compound statements (both branches of
  a conditional), and what can be read off them: the exception handlers, the loops, the
  shell commands, the imports, the files fetched, written and read, and the library calls
  with their parameters.
\<close>

fun flat :: "stmt \<Rightarrow> stmt list" and flats :: "stmt list \<Rightarrow> stmt list" where
  "flat (Try body x handler) = flats body @ flats handler"
| "flat (IfNotExists p body) = flats body"
| "flat (IfElse c yes no) = flats yes @ flats no"
| "flat (For it body) = flats body"
| "flat s = [s]"
| "flats [] = []"
| "flats (s # ss) = flat s @ flats ss"

fun try_blocks :: "stmt \<Rightarrow> stmt list" and try_blockss :: "stmt list \<Rightarrow> stmt list" where
  "try_blocks (Try body x handler) = Try body x handler # try_blockss body @ try_blockss handler"
| "try_blocks (IfNotExists p body) = try_blockss body"
| "try_blocks (IfElse c yes no) = try_blockss yes @ try_blockss no"
| "try_blocks (For it body) = try_blockss body"
| "try_blocks s = []"
| "try_blockss [] = []"
| "try_blockss (s # ss) = try_blocks s @ try_blockss ss"

fun loop_bodies :: "stmt \<Rightarrow> stmt list" and loop_bodiess :: "stmt list \<Rightarrow> stmt list" where
  "loop_bodies (For it body) = body"
| "loop_bodies (Try body x handler) = loop_bodiess body @ loop_bodiess handler"
| "loop_bodies (IfNotExists p body) = loop_bodiess body"
| "loop_bodies (IfElse c yes no) = loop_bodiess yes @ loop_bodiess no"
| "loop_bodies s = []"
| "loop_bodiess [] = []"
| "loop_bodiess (s # ss) = loop_bodies s @ loop_bodiess ss"

fun catches :: "stmt \<Rightarrow> exn list" and catchess :: "stmt list \<Rightarrow> exn list" where
  "catches (Try body x handler) = x # catchess body @ catchess handler"
| "catches (IfNotExists p body) = catchess body"
| "catches (IfElse c yes no) = catchess yes @ catchess no"
| "catches (For it body) = catchess body"
| "catches s = []"
| "catchess [] = []"
| "catchess (s # ss) = catches s @ catchess ss"

fun unhandled_shell :: "stmt \<Rightarrow> string list" and unhandled_shells :: "stmt list \<Rightarrow> string list" where
  "unhandled_shell (Shell c) = [c]"
| "unhandled_shell (Try body x handler) = unhandled_shells body"
| "unhandled_shell (IfNotExists p body) = unhandled_shells body"
| "unhandled_shell (IfElse c yes no) = unhandled_shells yes @ unhandled_shells no"
| "unhandled_shell (For it body) = unhandled_shells body"
| "unhandled_shell s = []"
| "unhandled_shells [] = []"
| "unhandled_shells (s # ss) = unhandled_shell s @ unhandled_shells ss"

fun shell_commands :: "stmt list \<Rightarrow> string list" where
  "shell_commands [] = []"
| "shell_commands (Shell c # ss) = c # shell_commands ss"
| "shell_commands (s # ss) = shell_commands ss"

fun imported :: "stmt list \<Rightarrow> string list" where
  "imported [] = []"
| "imported (Import m ns # ss) = m # imported ss"
| "imported (s # ss) = imported ss"

fun fetched :: "stmt list \<Rightarrow> string list" where
  "fetched [] = []"
| "fetched (S3Get remote local # ss) = local # fetched ss"
| "fetched (s # ss) = fetched ss"

fun artifacts :: "stmt list \<Rightarrow> (string \<times> string \<times> pexpr) list" where
  "artifacts [] = []"
| "artifacts (WriteFile callee src pe # ss) = (callee, src, pe) # artifacts ss"
| "artifacts (s # ss) = artifacts ss"

fun files_read :: "stmt list \<Rightarrow> (string \<times> pexpr) list" where
  "files_read [] = []"
| "files_read (ReadFile ts callee pe kw # ss) = (callee, pe) # files_read ss"
| "files_read (s # ss) = files_read ss"

fun pretrained :: "stmt list \<Rightarrow> (string \<times> string) list" where
  "pretrained [] = []"
| "pretrained (Pretrained ts callee name kw # ss) = (callee, name) # pretrained ss"
| "pretrained (s # ss) = pretrained ss"

fun made_dirs :: "stmt list \<Rightarrow> string list" where
  "made_dirs [] = []"
| "made_dirs (Makedirs d # ss) = d # made_dirs ss"
| "made_dirs (s # ss) = made_dirs ss"

fun callees :: "stmt list \<Rightarrow> string list" where
  "callees [] = []"
| "callees (Call ts callee as kw # ss) = callee # callees ss"
| "callees (ReadFile ts callee pe kw # ss) = callee # callees ss"
| "callees (WriteFile callee src pe # ss) = callee # callees ss"
| "callees (Pretrained ts callee name kw # ss) = callee # callees ss"
| "callees (s # ss) = callees ss"

fun loads :: "stmt list \<Rightarrow> (stmt \<times> pexpr) list" where
  "loads (g # ReadFile ts callee pe kw # ss) =
     (if callee = ''cudf.read_csv'' then [(g, pe)] else []) @ loads (ReadFile ts callee pe kw # ss)"
| "loads (s # ss) = loads ss"
| "loads [] = []"

fun callee_of :: "stmt \<Rightarrow> string" where
  "callee_of (Call ts callee as kw) = callee"
| "callee_of (ReadFile ts callee pe kw) = callee"
| "callee_of (WriteFile callee src pe) = callee"
| "callee_of (Pretrained ts callee name kw) = callee"
| "callee_of s = []"

fun dict_items :: "arg \<Rightarrow> (string \<times> arg) list" where
  "dict_items (Dict items) = items"
| "dict_items a = []"

fun parameters :: "stmt \<Rightarrow> (string \<times> arg) list" where
  "parameters (Call ts callee as kw) = kw @ concat (map dict_items as)"
| "parameters (ReadFile ts callee pe kw) = kw"
| "parameters (Pretrained ts callee name kw) = kw"
| "parameters s = []"

text \<open>
  An import fallback is \<open>try: import m  except ImportError: !conda install -c <channel> -y <package
  of m>; import m\<close>, with the channels the notebooks use.
\<close>

definition top_package :: "string \<Rightarrow> string" where
  "top_package m = takeWhile (\<lambda>c. c \<noteq> CHR ''.'') m"

fun import_fallback :: "stmt \<Rightarrow> bool" where
  "import_fallback (Try [Import m ns] x [Shell command, Import m' ns']) =
     (x = ImportError \<and> m' = m \<and> ns' = ns \<and>
      command \<in> {''conda install -c conda-forge -y '' @ top_package m,
                  ''conda install -c rapidsai -y '' @ top_package m})"
| "import_fallback s = False"

text \<open>
  What a statement writes at a path when it runs, which paths it creates, and the paths it
  may create whatever the time of the run.
\<close>

fun writes :: "env \<Rightarrow> stmt \<Rightarrow> string \<Rightarrow> content option" where
  "writes e (S3Get remote local) p = (if local = p then Some (Object remote) else None)"
| "writes e (WriteFile callee src pe) p =
     (if evalp e pe = p then Some (Artifact callee src) else None)"
| "writes e s p = None"

fun creates :: "env \<Rightarrow> stmt \<Rightarrow> string \<Rightarrow> bool" where
  "creates e (Makedirs d) p = (d = p)"
| "creates e s p = (writes e s p \<noteq> None)"

fun may_be :: "pexpr \<Rightarrow> string \<Rightarrow> bool" where
  "may_be (Plain q) p = (q = p)"
| "may_be (Stamped d pre suf) p = (take (length (d @ ''/'' @ pre)) p = d @ ''/'' @ pre)"

fun may_create :: "stmt \<Rightarrow> string \<Rightarrow> bool" where
  "may_create (S3Get remote local) p = (local = p)"
| "may_create (WriteFile callee src pe) p = may_be pe p"
| "may_create (Makedirs d) p = (d = p)"
| "may_create s p = False"

fun plain :: "pexpr \<Rightarrow> string option" where
  "plain (Plain p) = Some p"
| "plain pe = None"

text \<open>
  The discipline of a download: a fetch stands alone in the body of the test of its own
  target (\<open>guarded\<close>), every test of \<open>f\<close> is followed at once by a fetch of \<open>f\<close>
  (\<open>fetches_first\<close>), and nothing else in the program may create \<open>f\<close>.
\<close>

fun is_download :: "string \<Rightarrow> stmt list \<Rightarrow> bool" where
  "is_download p [S3Get remote local] = (local = p)"
| "is_download p body = False"

fun starts_with_fetch :: "string \<Rightarrow> stmt list \<Rightarrow> bool" where
  "starts_with_fetch p (S3Get remote local # rest) = (local = p)"
| "starts_with_fetch p body = False"

fun guarded :: "stmt \<Rightarrow> bool" and guardeds :: "stmt list \<Rightarrow> bool" where
  "guarded (S3Get remote local) = False"
| "guarded (IfNotExists p body) = (is_download p body \<or> guardeds body)"
| "guarded (Try body x handler) = (guardeds body \<and> guardeds handler)"
| "guarded (IfElse c yes no) = (guardeds yes \<and> guardeds no)"
| "guarded (For it body) = guardeds body"
| "guarded s = True"
| "guardeds [] = True"
| "guardeds (s # ss) = (guarded s \<and> guardeds ss)"

fun fetches_first :: "string \<Rightarrow> stmt \<Rightarrow> bool" and fetches_firsts :: "string \<Rightarrow> stmt list \<Rightarrow> bool" where
  "fetches_first f (IfNotExists p body) =
     (if p = f then starts_with_fetch f body else fetches_firsts f body)"
| "fetches_first f (Try body x handler) = (fetches_firsts f body \<and> fetches_firsts f handler)"
| "fetches_first f (IfElse c yes no) = (fetches_firsts f yes \<and> fetches_firsts f no)"
| "fetches_first f (For it body) = fetches_firsts f body"
| "fetches_first f s = True"
| "fetches_firsts f [] = True"
| "fetches_firsts f (s # ss) = (fetches_first f s \<and> fetches_firsts f ss)"

definition only_downloaded :: "stmt list \<Rightarrow> string \<Rightarrow> bool" where
  "only_downloaded nb f =
     (guardeds nb \<and> fetches_firsts f nb \<and>
      list_all (\<lambda>s. \<not> may_create s f \<or> s = S3Get (S3_BASE_PATH @ ''/'' @ f) f) (flats nb))"

text \<open>
  Parallelism: the parameters by which scikit-learn, XGBoost, PyTorch and cuML take a number
  of jobs, threads, workers, streams or devices, the wrappers that spread a model over
  devices, and the modules that create threads and processes.
\<close>

definition parallel_parameters :: "string list" where
  "parallel_parameters =
     [''n_jobs'', ''n_gpus'', ''nthread'', ''n_threads'', ''num_workers'', ''n_streams'']"

definition parallel_wrappers :: "string list" where
  "parallel_wrappers = [''nn.DataParallel'', ''nn.parallel.DistributedDataParallel'']"

definition concurrency_modules :: "string list" where
  "concurrency_modules =
     [''threading'', ''multiprocessing'', ''concurrent.futures'', ''asyncio'', ''subprocess'',
      ''queue'', ''joblib'', ''dask'', ''dask.distributed'', ''dask_cuda'']"

definition parallel_settings :: "stmt list \<Rightarrow> (string \<times> string \<times> arg) list" where
  "parallel_settings nb =
     concat (map (\<lambda>s. map (\<lambda>(k, v). (callee_of s, k, v))
                          (filter (\<lambda>(k, v). k \<in> set parallel_parameters) (parameters s)))
                 (flats nb))"

definition parallel_wraps :: "stmt list \<Rightarrow> string list" where
  "parallel_wraps nb = filter (\<lambda>c. c \<in> set parallel_wrappers) (callees (flats nb))"

definition concurrency_imports :: "stmt list \<Rightarrow> string list" where
  "concurrency_imports nb = filter (\<lambda>m. m \<in> set concurrency_modules) (imported (flats nb))"

text \<open>
  Data and metrics: the calls that generate a dataset in memory, the calls named like the
  specification's examples, the metric functions, and the metric values the statements of
  a notebook print or display. A printed or displayed name counts when the last call that
  assigned it is a metric function, or a call that was given a metric value, as in
  \<open>a = confusion_matrix(...); pd.DataFrame(a, ...)\<close>. What a library call writes to the
  console by itself is not a statement of the notebook and is counted apart, by \<open>reports\<close>
  below.
\<close>

definition generator_functions :: "string list" where
  "generator_functions =
     [''np.random.rand'', ''np.random.randint'', ''make_blobs'', ''make_classification'']"

definition generators :: "stmt list \<Rightarrow> string list" where
  "generators nb = filter (\<lambda>c. c \<in> set generator_functions) (callees (flats nb))"

definition method_name :: "string \<Rightarrow> string" where
  "method_name callee = rev (takeWhile (\<lambda>c. c \<noteq> CHR ''.'') (rev callee))"

definition named_calls :: "string list \<Rightarrow> stmt list \<Rightarrow> string list" where
  "named_calls names nb = filter (\<lambda>c. method_name c \<in> set names) (callees (flats nb))"

definition metric_functions :: "string list" where
  "metric_functions =
     [''accuracy_score'', ''average_precision_score'', ''f1_score'', ''classification_report'',
      ''confusion_matrix'', ''adjusted_rand_score'', ''seq_classifier.evaluate_model'']"

fun metric_targets :: "stmt list \<Rightarrow> string list" where
  "metric_targets [] = []"
| "metric_targets (Call ts callee as kw # ss) =
     (if callee \<in> set metric_functions then ts else []) @ metric_targets ss"
| "metric_targets (s # ss) = metric_targets ss"

fun names_of :: "arg list \<Rightarrow> string list" where
  "names_of [] = []"
| "names_of (Name v # as) = v # names_of as"
| "names_of (a # as) = names_of as"

fun producers :: "(string \<times> string) list \<Rightarrow> string list \<Rightarrow> string list" where
  "producers made [] = []"
| "producers made (v # vs) =
     (case map_of made v of Some c \<Rightarrow> c # producers made vs | None \<Rightarrow> producers made vs)"

definition origin :: "(string \<times> string) list \<Rightarrow> string \<Rightarrow> arg list \<Rightarrow> string" where
  "origin made callee as =
     (if callee \<in> set metric_functions then callee
      else case filter (\<lambda>c. c \<in> set metric_functions) (producers made (names_of as)) of
             m # ms \<Rightarrow> m
           | [] \<Rightarrow> callee)"

fun shown :: "(string \<times> string) list \<Rightarrow> stmt list \<Rightarrow> (string \<times> string) list" where
  "shown made [] = []"
| "shown made (Call ts callee as kw # ss) =
     shown (map (\<lambda>t. (t, origin made callee (as @ map snd kw))) ts @ made) ss"
| "shown made (ReadFile ts callee pe kw # ss) = shown (map (\<lambda>t. (t, callee)) ts @ made) ss"
| "shown made (Pretrained ts callee name kw # ss) = shown (map (\<lambda>t. (t, callee)) ts @ made) ss"
| "shown made (Print as # ss) =
     map (Pair ''print'') (filter (\<lambda>c. c \<in> set metric_functions) (producers made (names_of as)))
     @ shown made ss"
| "shown made (Display v # ss) =
     map (Pair ''display'') (filter (\<lambda>c. c \<in> set metric_functions) (producers made [v]))
     @ shown made ss"
| "shown made (s # ss) = shown made ss"

definition metrics_shown :: "stmt list \<Rightarrow> (string \<times> string) list" where
  "metrics_shown nb = shown [] (flats nb)"

text \<open>
  A library call can write to the console itself. The notebook files record the output of
  their last run, and \<open>console\<close> transcribes it: for each notebook, in the order of
  \<open>notebooks\<close>, the library calls under which output is recorded, each with the first line
  of every kind it wrote (a training call writes its lines once per round, batch or epoch
  with other numbers). A line is cut to its message, a tab is written as a space, and
  progress bars and the times of \<open>%%time\<close> are left out. The k-means notebook is stored
  without its outputs. A call reports a score when one of its lines names one.
\<close>

definition console :: "(string \<times> string list) list list" where
  "console =
     [[(''xgb.DMatrix'',
        [''UserWarning: Use subset (sliced data) of np.ndarray is not recommended because it will generate extra copies and increase memory consumption'']),
       (''xgb.train'',
        [''Deprecated. Single process multi-GPU training is no longer supported.'',
         ''might not be used.'',
         ''[0] validation-auc:0.49942 train-auc:0.54327''])],
      [(''BertForTokenClassification.from_pretrained'',
        [''Some weights of the model checkpoint at bert-base-cased were not used when initializing BertForTokenClassification'',
         ''You should probably TRAIN this model on a down-stream task to be able to use it for predictions and inference.''])],
      [(''seq_classifier.init_model'',
        [''Downloading:'',
         ''Some weights of the model checkpoint at bert-base-uncased were not used when initializing BertForSequenceClassification'',
         ''You should probably TRAIN this model on a down-stream task to be able to use it for predictions and inference.'']),
       (''seq_classifier.train_model'', [''Train loss: 0.07890232248359474''])],
      [(''xgb.train'', [''might not be used.''])],
      [],
      [],
      [(''cuml_model.fit'',
        [''UserWarning: For reproducible results in Random Forest Classifier or for almost reproducible results in Random Forest Regressor, n_streams==1 is recommended.'',
         ''Using experimental backend for growing trees''])],
      [(''dd.train_model'',
        [''[100000/1433083 (7%)] Loss: 6844.13'',
         ''Test set: Accuracy: 418521/614179 (0.6814316347514324)''])],
      [(''ac.train_model'',
        [''training loss:  1.4412893725804823'',
         ''valid loss 1.013 and accuracy 0.681''])]]"

definition score_names :: "string list" where
  "score_names = [''auc'', ''Accuracy'', ''accuracy'', ''F1'', ''f1'', ''precision'', ''recall'']"

fun mentions :: "string \<Rightarrow> string \<Rightarrow> bool" where
  "mentions word [] = (word = [])"
| "mentions word (c # line) = (take (length word) (c # line) = word \<or> mentions word line)"

definition reports :: "(string \<times> string list) list \<Rightarrow> (string \<times> string) list" where
  "reports out =
     concat (map (\<lambda>(callee, lines).
                    map (Pair callee) (filter (\<lambda>word. list_ex (mentions word) lines) score_names))
                 out)"

definition recorded_calls :: "stmt list \<Rightarrow> (string \<times> string list) list \<Rightarrow> bool" where
  "recorded_calls nb out = list_all (\<lambda>(callee, lines). callee \<in> set (callees (flats nb))) out"

text \<open>A notebook shows a metric by a statement of its own or through a library call.\<close>

definition shows_metric :: "stmt list \<Rightarrow> (string \<times> string list) list \<Rightarrow> bool" where
  "shows_metric nb out = (0 < length (metrics_shown nb) + length (reports out))"

text \<open>The library calls that read a given file.\<close>

fun readers :: "string \<Rightarrow> stmt list \<Rightarrow> string list" where
  "readers f [] = []"
| "readers f (ReadFile ts callee pe kw # ss) =
     (if pe = Plain f then [callee] else []) @ readers f ss"
| "readers f (s # ss) = readers f ss"

text \<open>A hand-off: a file one library call wrote and a later one reads.\<close>

fun handoffs ::
  "(pexpr \<times> string \<times> string) list \<Rightarrow> stmt list \<Rightarrow> (string \<times> string \<times> pexpr \<times> string) list" where
  "handoffs written [] = []"
| "handoffs written (WriteFile callee src pe # ss) = handoffs ((pe, callee, src) # written) ss"
| "handoffs written (ReadFile ts callee pe kw # ss) =
     (case map_of written pe of
        Some (writer, src) \<Rightarrow> [(writer, src, pe, callee)]
      | None \<Rightarrow> [])
     @ handoffs written ss"
| "handoffs written (s # ss) = handoffs written ss"

definition model_handoffs :: "stmt list \<Rightarrow> (string \<times> string \<times> pexpr \<times> string) list" where
  "model_handoffs nb = handoffs [] (flats nb)"

subsection \<open>Environments and worlds to run the notebooks in\<close>

text \<open>
  \<open>online\<close> has every S3 object and no failing library call; \<open>offline\<close> has an empty bucket.
  \<open>clean\<close> has every module and no file; \<open>on_disk f\<close> has the file \<open>f\<close> as well.
\<close>

definition online :: env where
  "online = \<lparr>bucket = UNIV, hub = UNIV, conda = (\<lambda>c. []), now = ''2021-05-05_10_30_00'',
              trips = (\<lambda>it. 1), lib_raises = (\<lambda>c. None)\<rparr>"

definition offline :: env where
  "offline = online\<lparr>bucket := {}\<rparr>"

definition clean :: world where
  "clean = \<lparr>files = Map.empty, dirs = {}, cache = {}, modules = UNIV\<rparr>"

definition on_disk :: "string \<Rightarrow> world" where
  "on_disk f = clean\<lparr>files := [f \<mapsto> Other 0]\<rparr>"

section \<open>Properties of \<open>categorize_columns\<close>\<close>

lemma code_of_less: "v \<in> set cs \<Longrightarrow> code_of cs v < length cs"
  by (induction cs) auto

lemma code_of_inj: "x \<in> set cs \<Longrightarrow> y \<in> set cs \<Longrightarrow> code_of cs x = code_of cs y \<longleftrightarrow> x = y"
  by (induction cs) auto

lemma code_of_nth: "distinct cs \<Longrightarrow> i < length cs \<Longrightarrow> code_of cs (cs ! i) = i"
  by (induction cs arbitrary: i) (auto simp: nth_Cons split: nat.splits)

lemma length_fit: "length (fit y) = card (set y)"
  by (simp add: fit_def length_remdups_card_conv)

lemma set_fit: "set (fit y) = set y"
  by (simp add: fit_def)

lemma fit_sorted_distinct: "sorted y \<Longrightarrow> distinct y \<Longrightarrow> fit y = y"
  by (simp add: fit_def sorted_sort_id)

lemma sint16: "n < 32768 \<Longrightarrow> sint (word_of_nat n :: 16 word) = int n"
proof -
  assume n: "n < 32768"
  have "sint (word_of_nat n :: 16 word) = signed_take_bit 15 (int n)"
    by transfer simp
  also have "\<dots> = int n"
    using n by (intro signed_take_bit_int_eq_self) simp_all
  finally show ?thesis .
qed

lemma w16_inj:
  assumes "m < 65536" "n < 65536"
  shows "(word_of_nat m :: 16 word) = word_of_nat n \<longleftrightarrow> m = n"
proof
  assume "(word_of_nat m :: 16 word) = word_of_nat n"
  then have "unat (word_of_nat m :: 16 word) = unat (word_of_nat n :: 16 word)" by simp
  then show "m = n" using assms by (simp add: unat_of_nat)
qed simp

lemma replicate_le: "m \<le> n \<Longrightarrow> replicate m (a::char) \<le> replicate n a"
proof (induction m arbitrary: n)
  case 0
  then show ?case by simp
next
  case (Suc m)
  then obtain k where "n = Suc k" "m \<le> k" by (cases n) auto
  then show ?case using Suc.IH by simp
qed

lemma sorted_replicates: "sorted (map (\<lambda>k. replicate (Suc k) (a::char)) [0..<n])"
  by (rule sorted_map_mono) (auto simp: mono_on_def intro: replicate_le)

lemma distinct_replicates: "distinct (map (\<lambda>k. replicate (Suc k) (a::char)) [0..<n])"
  by (auto simp: distinct_map inj_on_def dest: arg_cong [where f = length])

lemma fit_transform_sorted_distinct:
  "sorted y \<Longrightarrow> distinct y \<Longrightarrow> fit_transform y = [0..<length y]"
  by (auto simp: fit_transform_def transform_def fit_sorted_distinct code_of_nth
      intro: nth_equalityI)

lemma fillna_astype_str:
  "fillna ''NA'' (astype_str str null_str col) = map (stringify str null_str) col"
  by (simp add: fillna_def astype_str_def stringify_def split: option.splits)

lemma categorize_column_nth:
  assumes "i < length col"
  shows "categorize_column str null_str col ! i =
         word_of_nat (code_of (fit (map (stringify str null_str) col)) (stringify str null_str (col ! i)))"
  using assms
  by (simp add: categorize_column_def astype_int16_def fit_transform_def transform_def
      fillna_astype_str)

lemma length_categorize_column: "length (categorize_column str null_str col) = length col"
  by (simp add: categorize_column_def astype_int16_def fit_transform_def transform_def
      fillna_def astype_str_def)

lemma categorize_column_nonneg:
  assumes small: "card (set (map (stringify str null_str) col)) \<le> 32768"
    and i: "i < length col"
  shows "0 \<le> sint (categorize_column str null_str col ! i)"
proof -
  let ?cs = "fit (map (stringify str null_str) col)"
  have len: "length ?cs \<le> 32768" using small by (simp add: length_fit)
  have mi: "stringify str null_str (col ! i) \<in> set ?cs" using i by (simp add: set_fit)
  have li: "code_of ?cs (stringify str null_str (col ! i)) < 32768"
    using code_of_less [OF mi] len by simp
  show ?thesis using sint16 [OF li] by (simp add: categorize_column_nth i)
qed

lemma categorize_column_same_code:
  assumes small: "card (set (map (stringify str null_str) col)) \<le> 65536"
    and i: "i < length col" and j: "j < length col"
  shows "categorize_column str null_str col ! i = categorize_column str null_str col ! j
         \<longleftrightarrow> stringify str null_str (col ! i) = stringify str null_str (col ! j)"
proof -
  let ?cs = "fit (map (stringify str null_str) col)"
  have len: "length ?cs \<le> 65536" using small by (simp add: length_fit)
  have mi: "stringify str null_str (col ! i) \<in> set ?cs" using i by (simp add: set_fit)
  have mj: "stringify str null_str (col ! j) \<in> set ?cs" using j by (simp add: set_fit)
  have li: "code_of ?cs (stringify str null_str (col ! i)) < 65536"
    using code_of_less [OF mi] len by simp
  have lj: "code_of ?cs (stringify str null_str (col ! j)) < 65536"
    using code_of_less [OF mj] len by simp
  show ?thesis
    using w16_inj [OF li lj] code_of_inj [OF mi mj]
    by (simp add: categorize_column_nth i j)
qed

lemma categorize_column_distinct_labels:
  "categorize_column id None (distinct_labels n) = map word_of_nat [0..<n]"
proof -
  have "fillna ''NA'' (astype_str id None (distinct_labels n))
        = map (\<lambda>k. replicate (Suc k) CHR ''a'') [0..<n]"
    by (simp add: fillna_def astype_str_def distinct_labels_def)
  then show ?thesis
    using fit_transform_sorted_distinct [OF sorted_replicates distinct_replicates, of "CHR ''a''" n]
    by (simp add: categorize_column_def astype_int16_def)
qed

text \<open>
  C9, as the code has it. \<open>categorize_columns\<close> keeps the names and the lengths of the
  columns and returns int16 codes. The codes of a column are non-negative when it has at
  most 32768 distinct strings (after \<open>astype('str')\<close> and \<open>fillna("NA")\<close>), and two rows have
  the same code if and only if their values stringify equally when it has at most 65536.
  As \<open>fillna\<close> comes after the cast, a null that the cast left null becomes \<open>NA\<close>, and a null
  that the cast turned into a string keeps that string.
\<close>

theorem categorize_columns_codes:
  "(\<forall>k<length cat_gdf.
      fst (categorize_columns str null_str cat_gdf ! k) = fst (cat_gdf ! k) \<and>
      length (snd (categorize_columns str null_str cat_gdf ! k)) = length (snd (cat_gdf ! k)) \<and>
      (card (set (map (stringify str null_str) (snd (cat_gdf ! k)))) \<le> 32768 \<longrightarrow>
        (\<forall>i<length (snd (cat_gdf ! k)).
           0 \<le> sint (snd (categorize_columns str null_str cat_gdf ! k) ! i))) \<and>
      (card (set (map (stringify str null_str) (snd (cat_gdf ! k)))) \<le> 65536 \<longrightarrow>
        (\<forall>i<length (snd (cat_gdf ! k)). \<forall>j<length (snd (cat_gdf ! k)).
           snd (categorize_columns str null_str cat_gdf ! k) ! i =
             snd (categorize_columns str null_str cat_gdf ! k) ! j
           \<longleftrightarrow> stringify str null_str (snd (cat_gdf ! k) ! i) =
               stringify str null_str (snd (cat_gdf ! k) ! j)))) \<and>
   (\<forall>col. fillna ''NA'' (astype_str str null_str col) = map (stringify str null_str) col) \<and>
   (\<forall>v. stringify str null_str (Some v) = str v) \<and>
   stringify str None None = ''NA'' \<and>
   (\<forall>s. stringify str (Some s) None = s)"
proof (intro conjI allI impI)
  fix k assume k: "k < length cat_gdf"
  obtain name col where kc: "cat_gdf ! k = (name, col)" by (cases "cat_gdf ! k")
  have res: "categorize_columns str null_str cat_gdf ! k = (name, categorize_column str null_str col)"
    using k kc by (simp add: categorize_columns_def)
  show "fst (categorize_columns str null_str cat_gdf ! k) = fst (cat_gdf ! k)"
    by (simp add: res kc)
  show "length (snd (categorize_columns str null_str cat_gdf ! k)) = length (snd (cat_gdf ! k))"
    by (simp add: res kc length_categorize_column)
  show "0 \<le> sint (snd (categorize_columns str null_str cat_gdf ! k) ! i)"
    if "card (set (map (stringify str null_str) (snd (cat_gdf ! k)))) \<le> 32768"
      and "i < length (snd (cat_gdf ! k))" for i
    using that categorize_column_nonneg [of str null_str col i] by (simp add: res kc)
  show "snd (categorize_columns str null_str cat_gdf ! k) ! i =
             snd (categorize_columns str null_str cat_gdf ! k) ! j
           \<longleftrightarrow> stringify str null_str (snd (cat_gdf ! k) ! i) =
               stringify str null_str (snd (cat_gdf ! k) ! j)"
    if "card (set (map (stringify str null_str) (snd (cat_gdf ! k)))) \<le> 65536"
      and "i < length (snd (cat_gdf ! k))" and "j < length (snd (cat_gdf ! k))" for i j
    using that categorize_column_same_code [of str null_str col i j] by (simp add: res kc)
next
  show "fillna ''NA'' (astype_str str null_str col) = map (stringify str null_str) col" for col
    by (rule fillna_astype_str)
qed (simp_all add: stringify_def)

text \<open>The theorem at the column \<open>b, null, a, b\<close>: rows 0 and 3 have the same code.\<close>

theorem categorize_columns_codes_witness:
  "card (set (map (stringify id None) [Some ''b'', None, Some ''a'', Some ''b''])) \<le> 32768 \<and>
   0 \<le> sint (snd (categorize_columns id None
                    [(''keywords'', [Some ''b'', None, Some ''a'', Some ''b''])] ! 0) ! 0) \<and>
   snd (categorize_columns id None [(''keywords'', [Some ''b'', None, Some ''a'', Some ''b''])] ! 0) ! 0
   = snd (categorize_columns id None [(''keywords'', [Some ''b'', None, Some ''a'', Some ''b''])] ! 0) ! 3"
proof -
  let ?df = "[(''keywords'', [Some ''b'', None, Some ''a'', Some ''b''])]"
  have small: "card (set (map (stringify id None) [Some ''b'', None, Some ''a'', Some ''b''])) \<le> 32768"
    by (simp add: stringify_def card_insert_if)
  have k: "0 < length ?df" by simp
  have small': "card (set (map (stringify id None) (snd (?df ! 0)))) \<le> 32768"
    using small by simp
  have small'': "card (set (map (stringify id None) (snd (?df ! 0)))) \<le> 65536"
    using small by simp
  have i: "0 < length (snd (?df ! 0))" and j: "3 < length (snd (?df ! 0))" by simp_all
  note col = categorize_columns_codes [of ?df id None, THEN conjunct1, rule_format, OF k]
  note nonneg = col [THEN conjunct2, THEN conjunct2, THEN conjunct1, rule_format, OF small' i]
  note same = col [THEN conjunct2, THEN conjunct2, THEN conjunct2, rule_format, OF small'' i j]
  have "stringify id None (snd (?df ! 0) ! 0) = stringify id None (snd (?df ! 0) ! 3)"
    by (simp add: stringify_def)
  then show ?thesis using nonneg same small by blast
qed

lemma labels_differ: "distinct_labels 65537 ! 0 \<noteq> distinct_labels 65537 ! 65536"
proof -
  have "distinct_labels 65537 ! 0 = Some (replicate (Suc 0) CHR ''a'')"
    by (simp add: distinct_labels_def del: replicate.simps)
  moreover have "distinct_labels 65537 ! 65536 = Some (replicate (Suc 65536) CHR ''a'')"
    by (simp add: distinct_labels_def del: replicate.simps)
  moreover have "replicate (Suc 0) CHR ''a'' \<noteq> replicate (Suc 65536) CHR ''a''"
    by (auto dest: arg_cong [where f = length])
  ultimately show ?thesis by simp
qed

text \<open>
  C9 as stated fails three times. In a column of 32769 distinct values the last label has
  code 32768, which the cast to int16 turns into \<open>-32768\<close>. In a column of 65537 distinct
  values the first and the last label both get the code \<open>0\<close>. And with a cast that keeps
  nulls, as cuDF's does, a null is replaced by the literal \<open>NA\<close>: in the column
  \<open>null, NA, None\<close> it shares the code of the string \<open>NA\<close>.
\<close>

theorem categorize_columns_negative_code:
  "sint (snd (categorize_columns id None [(''eventcode'', distinct_labels 32769)] ! 0) ! 32768)
     = - 32768 \<and>
   snd (categorize_columns id None [(''eventcode'', distinct_labels 65537)] ! 0) ! 0
     = snd (categorize_columns id None [(''eventcode'', distinct_labels 65537)] ! 0) ! 65536 \<and>
   distinct_labels 65537 ! 0 \<noteq> distinct_labels 65537 ! 65536 \<and>
   categorize_columns id None [(''keywords'', [None, Some ''NA'', Some ''None''])]
     = [(''keywords'', [0, 0, 1])]"
proof (intro conjI)
  show "sint (snd (categorize_columns id None [(''eventcode'', distinct_labels 32769)] ! 0) ! 32768)
     = - 32768"
    by (simp add: categorize_columns_def categorize_column_distinct_labels)
  show "snd (categorize_columns id None [(''eventcode'', distinct_labels 65537)] ! 0) ! 0
     = snd (categorize_columns id None [(''eventcode'', distinct_labels 65537)] ! 0) ! 65536"
    by (simp add: categorize_columns_def categorize_column_distinct_labels)
  show "distinct_labels 65537 ! 0 \<noteq> distinct_labels 65537 ! 65536"
    by (rule labels_differ)
  show "categorize_columns id None [(''keywords'', [None, Some ''NA'', Some ''None''])]
     = [(''keywords'', [0, 0, 1])]"
    by (simp add: categorize_columns_def categorize_column_def astype_int16_def fit_transform_def
        transform_def fit_def fillna_def astype_str_def)
qed

section \<open>Properties of every run\<close>

subsection \<open>Results\<close>

lemma outcome_simps [simp]: "outcome (x, w, evs) = x" "final (x, w, evs) = w" "events (x, w, evs) = evs"
  by (simp_all add: outcome_def final_def events_def)

lemma after_simps [simp]:
  "outcome (after evs r) = outcome r" "final (after evs r) = final r"
  "events (after evs r) = evs @ events r"
  by (simp_all add: after_def)

lemma finish_simps [simp]:
  "outcome (finish s w) = None" "final (finish s w) = w" "events (finish s w) = [Ran s]"
  by (simp_all add: finish_def)

lemma raise_simps [simp]:
  "outcome (raise s x w) = Some x" "final (raise s x w) = w" "events (raise s x w) = [Ran s, Raised x]"
  by (simp_all add: raise_def)

lemma library_simps [simp]:
  "outcome (library e c s w) = lib_raises e c" "final (library e c s w) = w"
  "set (events (library e c s w)) = insert (Ran s) (Raised ` set_option (lib_raises e c))"
  by (auto simp: library_def split: option.splits)

text \<open>Running one part and then another: what the three sequencing equations share.\<close>

definition andthen :: "result \<Rightarrow> (world \<Rightarrow> result) \<Rightarrow> result" where
  "andthen r k = (if outcome r = None then after (events r) (k (final r)) else r)"

lemma execs_Cons: "execs e (s # ss) w = andthen (exec e s w) (execs e ss)"
  by (simp add: andthen_def Let_def)

lemma loop_Suc: "loop e (Suc n) body w = andthen (execs e body w) (loop e n body)"
  by (simp add: andthen_def Let_def)

lemma exec_Try:
  "exec e (Try body x handler) w =
     (if outcome (execs e body w) = Some x
      then after (events (execs e body w)) (execs e handler (final (execs e body w)))
      else execs e body w)"
  by (simp add: Let_def)

subsection \<open>What runs is in the program, and what exists stays\<close>

lemma ran_in_program:
  shows "Ran s \<in> set (events (exec e st w)) \<Longrightarrow> s \<in> set (flat st)"
    and "Ran s \<in> set (events (execs e ss w)) \<Longrightarrow> s \<in> set (flats ss)"
    and "Ran s \<in> set (events (loop e n body w)) \<Longrightarrow> s \<in> set (flats body)"
proof (induction e st w and e ss w and e n body w rule: exec_execs_loop.induct)
  case (3 e body x handler w)
  then show ?case by (auto simp: Let_def split: if_splits)
next
  case (16 e s ss w)
  then show ?case by (auto simp: Let_def split: if_splits)
next
  case (18 e n body w)
  then show ?case by (auto simp: Let_def split: if_splits)
qed (auto split: if_splits option.splits)

lemma exists_mono:
  shows "path_exists w p \<Longrightarrow> path_exists (final (exec e st w)) p"
    and "path_exists w p \<Longrightarrow> path_exists (final (execs e ss w)) p"
    and "path_exists w p \<Longrightarrow> path_exists (final (loop e n body w)) p"
proof (induction e st w and e ss w and e n body w rule: exec_execs_loop.induct)
  case (3 e body x handler w)
  then show ?case by (auto simp: Let_def split: if_splits)
next
  case (16 e s ss w)
  then show ?case by (auto simp: Let_def split: if_splits)
next
  case (18 e n body w)
  then show ?case by (auto simp: Let_def split: if_splits)
qed (auto simp: path_exists_def split: if_splits option.splits)

subsection \<open>Frame properties: a change has a statement that made it\<close>

lemma files_frame_after:
  assumes "files (final r) p = files w p \<or>
           (\<exists>s c. Ran s \<in> set (events r) \<and> writes e s p = Some c \<and> files (final r) p = Some c)"
    and "files (final r') p = files (final r) p \<or>
           (\<exists>s c. Ran s \<in> set (events r') \<and> writes e s p = Some c \<and> files (final r') p = Some c)"
  shows "files (final (after (events r) r')) p = files w p \<or>
           (\<exists>s c. Ran s \<in> set (events (after (events r) r')) \<and> writes e s p = Some c \<and>
                  files (final (after (events r) r')) p = Some c)"
  using assms by simp metis

lemma files_frame:
  shows "files (final (exec e st w)) p = files w p \<or>
         (\<exists>s c. Ran s \<in> set (events (exec e st w)) \<and> writes e s p = Some c \<and>
                files (final (exec e st w)) p = Some c)"
    and "files (final (execs e ss w)) p = files w p \<or>
         (\<exists>s c. Ran s \<in> set (events (execs e ss w)) \<and> writes e s p = Some c \<and>
                files (final (execs e ss w)) p = Some c)"
    and "files (final (loop e n body w)) p = files w p \<or>
         (\<exists>s c. Ran s \<in> set (events (loop e n body w)) \<and> writes e s p = Some c \<and>
                files (final (loop e n body w)) p = Some c)"
proof (induction e st w and e ss w and e n body w rule: exec_execs_loop.induct)
  case (3 e body x handler w)
  then show ?case using files_frame_after [of "execs e body w" p w e]
    by (simp only: exec_Try split: if_split) blast
next
  case (16 e s ss w)
  then show ?case using files_frame_after [of "exec e s w" p w e]
    by (simp only: execs_Cons andthen_def split: if_split) blast
next
  case (18 e n body w)
  then show ?case using files_frame_after [of "execs e body w" p w e]
    by (simp only: loop_Suc andthen_def split: if_split) blast
next
  case (7 e remote local w)
  then show ?case by (auto intro: exI [of _ "S3Get remote local"])
next
  case (10 e callee src pe w)
  then show ?case by (auto split: option.splits intro: exI [of _ "WriteFile callee src pe"])
qed (auto split: if_splits option.splits)



lemma writes_cases:
  "writes e s p = Some c \<Longrightarrow>
     (\<exists>remote. s = S3Get remote p \<and> c = Object remote) \<or>
     (\<exists>callee src pe. s = WriteFile callee src pe \<and> evalp e pe = p \<and> c = Artifact callee src)"
  by (cases s) (auto split: if_splits)

text \<open>
  The same for what the libraries keep for themselves: a checkpoint enters the cache by a
  call that loads it, a directory is made by \<open>os.makedirs\<close>, and a package is installed by
  a shell command.
\<close>

lemma pretrained_append: "pretrained (xs @ ys) = pretrained xs @ pretrained ys"
  by (induction xs rule: pretrained.induct) simp_all

lemma made_dirs_append: "made_dirs (xs @ ys) = made_dirs xs @ made_dirs ys"
  by (induction xs rule: made_dirs.induct) simp_all

lemma shell_commands_append: "shell_commands (xs @ ys) = shell_commands xs @ shell_commands ys"
  by (induction xs rule: shell_commands.induct) simp_all

lemma cache_frame:
  shows "cache (final (exec e st w)) \<subseteq> cache w \<union> snd ` set (pretrained (flat st))"
    and "cache (final (execs e ss w)) \<subseteq> cache w \<union> snd ` set (pretrained (flats ss))"
    and "cache (final (loop e n body w)) \<subseteq> cache w \<union> snd ` set (pretrained (flats body))"
proof (induction e st w and e ss w and e n body w rule: exec_execs_loop.induct)
  case (3 e body x handler w)
  then show ?case by (auto simp: Let_def pretrained_append split: if_splits)
next
  case (16 e s ss w)
  then show ?case by (auto simp: Let_def pretrained_append split: if_splits)
next
  case (18 e n body w)
  then show ?case by (auto simp: Let_def pretrained_append split: if_splits)
qed (auto simp: pretrained_append split: if_splits option.splits)

lemma dirs_frame:
  shows "dirs (final (exec e st w)) \<subseteq> dirs w \<union> set (made_dirs (flat st))"
    and "dirs (final (execs e ss w)) \<subseteq> dirs w \<union> set (made_dirs (flats ss))"
    and "dirs (final (loop e n body w)) \<subseteq> dirs w \<union> set (made_dirs (flats body))"
proof (induction e st w and e ss w and e n body w rule: exec_execs_loop.induct)
  case (3 e body x handler w)
  then show ?case by (auto simp: Let_def made_dirs_append split: if_splits)
next
  case (16 e s ss w)
  then show ?case by (auto simp: Let_def made_dirs_append split: if_splits)
next
  case (18 e n body w)
  then show ?case by (auto simp: Let_def made_dirs_append split: if_splits)
qed (auto simp: made_dirs_append split: if_splits option.splits)

lemma modules_frame:
  shows "modules (final (exec e st w))
           \<subseteq> modules w \<union> (\<Union>c \<in> set (shell_commands (flat st)). set (conda e c))"
    and "modules (final (execs e ss w))
           \<subseteq> modules w \<union> (\<Union>c \<in> set (shell_commands (flats ss)). set (conda e c))"
    and "modules (final (loop e n body w))
           \<subseteq> modules w \<union> (\<Union>c \<in> set (shell_commands (flats body)). set (conda e c))"
proof (induction e st w and e ss w and e n body w rule: exec_execs_loop.induct)
  case (3 e body x handler w)
  then show ?case by (auto simp: Let_def shell_commands_append split: if_splits)
next
  case (16 e s ss w)
  then show ?case by (auto simp: Let_def shell_commands_append split: if_splits)
next
  case (18 e n body w)
  then show ?case by (auto simp: Let_def shell_commands_append split: if_splits)
qed (auto simp: shell_commands_append split: if_splits option.splits)

lemma exec_Pretrained_cache:
  "cache (final (exec e (Pretrained ts callee name kw) w)) =
     (if name \<in> hub e then insert name (cache w) else cache w)"
  by (auto simp: insert_absorb)

subsection \<open>Guarded downloads\<close>

lemma is_download_iff: "is_download p body \<longleftrightarrow> (\<exists>remote. body = [S3Get remote p])"
  by (induction p body rule: is_download.induct) auto


lemma fetch_when_absent:
  shows "guarded st \<Longrightarrow> Ran (S3Get remote local) \<in> set (events (exec e st w)) \<Longrightarrow>
         \<not> path_exists w local"
    and "guardeds ss \<Longrightarrow> Ran (S3Get remote local) \<in> set (events (execs e ss w)) \<Longrightarrow>
         \<not> path_exists w local"
    and "guardeds body \<Longrightarrow> Ran (S3Get remote local) \<in> set (events (loop e n body w)) \<Longrightarrow>
         \<not> path_exists w local"
proof (induction e st w and e ss w and e n body w rule: exec_execs_loop.induct)
  case (3 e body x handler w)
  then show ?case using exists_mono(2) by (auto simp: Let_def split: if_splits)
next
  case (4 e p body w)
  show ?case
  proof (cases "is_download p body")
    case True
    then obtain r where b: "body = [S3Get r p]" by (auto simp: is_download_iff)
    with 4 show ?thesis by (auto simp: Let_def split: if_splits)
  next
    case False
    with 4 show ?thesis by (auto split: if_splits)
  qed
next
  case (16 e s ss w)
  then show ?case using exists_mono(1) by (auto simp: Let_def split: if_splits)
next
  case (18 e n body w)
  then show ?case using exists_mono(2) by (auto simp: Let_def split: if_splits)
qed (auto split: if_splits option.splits)



subsection \<open>Exceptions\<close>

lemma raised_uncaught:
  shows "Raised x \<in> set (events (exec e st w)) \<Longrightarrow>
         x \<in> set (catches st) \<or> outcome (exec e st w) = Some x"
    and "Raised x \<in> set (events (execs e ss w)) \<Longrightarrow>
         x \<in> set (catchess ss) \<or> outcome (execs e ss w) = Some x"
    and "Raised x \<in> set (events (loop e n body w)) \<Longrightarrow>
         x \<in> set (catchess body) \<or> outcome (loop e n body w) = Some x"
proof (induction e st w and e ss w and e n body w rule: exec_execs_loop.induct)
  case (3 e body x' handler w)
  then show ?case by (auto simp: Let_def split: if_splits)
next
  case (16 e s ss w)
  then show ?case by (auto simp: Let_def split: if_splits)
next
  case (18 e n body w)
  then show ?case by (auto simp: Let_def split: if_splits)
qed (auto split: if_splits option.splits)

subsection \<open>Consequences for a program that keeps the discipline\<close>

lemma fetched_iff: "l \<in> set (fetched ss) \<longleftrightarrow> (\<exists>remote. S3Get remote l \<in> set ss)"
  by (induction ss rule: fetched.induct) auto

lemma artifacts_iff: "(callee, src, pe) \<in> set (artifacts ss) \<longleftrightarrow> WriteFile callee src pe \<in> set ss"
  by (induction ss rule: artifacts.induct) auto

lemma dataset_untouched:
  assumes g: "guardeds nb"
    and only: "\<forall>s \<in> set (flats nb). creates e s f \<longrightarrow> s = S3Get remote f"
    and ex: "path_exists w f"
  shows "files (final (execs e nb w)) f = files w f"
    and "Ran (S3Get remote' f) \<notin> set (events (execs e nb w))"
proof -
  show nf: "Ran (S3Get r f) \<notin> set (events (execs e nb w))" for r
    using fetch_when_absent(2) [OF g] ex by blast
  show "files (final (execs e nb w)) f = files w f"
  proof (rule ccontr)
    assume "files (final (execs e nb w)) f \<noteq> files w f"
    then obtain s c where s: "Ran s \<in> set (events (execs e nb w))" "writes e s f = Some c"
      using files_frame(2) [of e nb w f] by blast
    have "s \<in> set (flats nb)" using s(1) by (rule ran_in_program(2))
    moreover have "creates e s f" using s(2) by (cases s) auto
    ultimately have "s = S3Get remote f" using only by blast
    then show False using nf s(1) by simp
  qed
qed

lemma dataset_content:
  assumes only: "\<forall>s \<in> set (flats nb). creates e s f \<longrightarrow> s = S3Get remote f"
  shows "files (final (execs e nb w)) f = files w f \<or>
         files (final (execs e nb w)) f = Some (Object remote)"
proof (cases "files (final (execs e nb w)) f = files w f")
  case False
  then obtain s c where s: "Ran s \<in> set (events (execs e nb w))" "writes e s f = Some c"
    and c: "files (final (execs e nb w)) f = Some c"
    using files_frame(2) [of e nb w f] by blast
  have "s \<in> set (flats nb)" using s(1) by (rule ran_in_program(2))
  moreover have "creates e s f" using s(2) by (cases s) auto
  ultimately have "s = S3Get remote f" using only by blast
  then show ?thesis using s(2) c by simp
qed simp


lemma created_by_program:
  assumes base: "\<forall>s \<in> set (flats nb). \<forall>remote l. s = S3Get remote l \<longrightarrow> remote = S3_BASE_PATH @ ''/'' @ l"
  shows "files (final (execs e nb w)) p = files w p \<or>
         (p \<in> set (fetched (flats nb)) \<and>
          files (final (execs e nb w)) p = Some (Object (S3_BASE_PATH @ ''/'' @ p))) \<or>
         (\<exists>(callee, src, pe) \<in> set (artifacts (flats nb)).
            p = evalp e pe \<and> files (final (execs e nb w)) p = Some (Artifact callee src))"
proof (cases "files (final (execs e nb w)) p = files w p")
  case False
  then obtain s c where s: "Ran s \<in> set (events (execs e nb w))" "writes e s p = Some c"
    and c: "files (final (execs e nb w)) p = Some c"
    using files_frame(2) [of e nb w p] by blast
  have mem: "s \<in> set (flats nb)" using s(1) by (rule ran_in_program(2))
  from writes_cases [OF s(2)] show ?thesis
  proof (elim disjE exE conjE)
    fix remote assume "s = S3Get remote p" "c = Object remote"
    then show ?thesis using mem base c by (auto simp: fetched_iff)
  next
    fix callee src pe assume "s = WriteFile callee src pe" "evalp e pe = p" "c = Artifact callee src"
    then show ?thesis using mem c by (auto simp: artifacts_iff [symmetric])
  qed
qed simp

lemma may_be_evalp: "evalp e pe = p \<Longrightarrow> may_be pe p"
  by (cases pe) auto

lemma creates_may_create: "creates e s p \<Longrightarrow> may_create s p"
  by (cases s) (auto simp: may_be_evalp split: if_splits)

lemma only_downloaded_creates:
  assumes "only_downloaded nb f"
  shows "\<forall>s \<in> set (flats nb). creates e s f \<longrightarrow> s = S3Get (S3_BASE_PATH @ ''/'' @ f) f"
  using assms creates_may_create unfolding only_downloaded_def list_all_iff by blast

lemma plain_Some: "plain pe = Some f \<longleftrightarrow> pe = Plain f"
  by (cases pe) auto

section \<open>Properties of the nine notebooks\<close>

subsection \<open>What the notebooks' text shows\<close>

lemmas notebook_defs =
  xgboost_demo_def cybert_example_training_def phishing_detection_def forest_inference_demo_def
  kmeans_demo_def nearest_neighbors_demo_def random_forest_demo_def dga_detection_def
  asset_classification_def download_def import_or_install_def train_and_evaluate_def
  make_models_dir_def
  tsv_options_def forest_options_def

lemmas run_defs = online_def clean_def finish_def raise_def library_def after_def
  outcome_def final_def events_def path_exists_def model_path_def S3_BASE_PATH_def
  INPUT_CSV_def MODELS_DIR_def model_filepath_def filename_def


lemma census_reads:
  "list_all (\<lambda>nb. list_all (\<lambda>(callee, pe). callee \<noteq> ''cudf.read_csv'' \<or>
                       (case plain pe of
                          Some f \<Rightarrow> only_downloaded nb f \<and>
                                    list_all (\<lambda>(c, src, pe'). \<not> may_be pe' f) (artifacts (flats nb))
                        | None \<Rightarrow> False)) (files_read (flats nb))) notebooks"
  by code_simp

lemma census_fetch_base:
  "list_all (\<lambda>nb. list_all (\<lambda>s. case s of S3Get remote l \<Rightarrow> remote = S3_BASE_PATH @ ''/'' @ l | _ \<Rightarrow> True)
                           (flats nb)) notebooks"
  by code_simp

lemma census_catches: "list_all (\<lambda>nb. list_all (\<lambda>x. x = ImportError) (catchess nb)) notebooks"
  by code_simp

lemma created_dir:
  "path_exists (final (exec e make_models_dir w)) MODELS_DIR"
  by (simp add: make_models_dir_def path_exists_def Let_def)

lemma import_fallback_shape:
  "import_fallback s \<Longrightarrow> \<exists>m ns c. s = import_or_install m ns c"
  by (induction s rule: import_fallback.induct) (auto simp: import_or_install_def)

lemma exec_import_or_install:
  "exec e (import_or_install m ns c) w =
     (if m \<in> modules w then (None, w, [Ran (Import m ns)])
      else if m \<in> set (conda e c)
      then (None, w\<lparr>modules := modules w \<union> set (conda e c)\<rparr>,
            [Ran (Import m ns), Raised ImportError, Ran (Shell c), Ran (Import m ns)])
      else (Some ImportError, w\<lparr>modules := modules w \<union> set (conda e c)\<rparr>,
            [Ran (Import m ns), Raised ImportError, Ran (Shell c), Ran (Import m ns),
             Raised ImportError]))"
  by (simp add: import_or_install_def Let_def finish_def raise_def after_def outcome_def
      final_def events_def)

subsection \<open>Downloads\<close>



subsection \<open>Exception handlers\<close>

text \<open>
  C2. Every \<open>try\<close> statement of the nine notebooks is an import fallback: it catches
  \<open>ImportError\<close> around one import, installs the package of the module with \<open>conda\<close> and
  repeats the same import. There are ten of them, none inside a loop, and the only install
  command outside a handler is the \<open>else\<close> branch of the \<open>has_xgboost()\<close> test of the forest
  inference notebook, an import fallback without an exception. A fallback installs only
  when the first import fails and retries once: a second \<open>ImportError\<close> ends the run. In
  every run of every notebook, a raised exception other than \<open>ImportError\<close> is the outcome
  of the run: no other exception is caught anywhere.
\<close>

theorem import_fallbacks_only:
  "list_all (\<lambda>nb. list_all import_fallback (try_blockss nb)) notebooks \<and>
   map (length \<circ> try_blockss) notebooks = [0, 2, 2, 1, 1, 0, 0, 2, 2] \<and>
   list_all (\<lambda>nb. try_blockss (loop_bodiess nb) = []) notebooks \<and>
   map unhandled_shells notebooks =
     [[''nvidia-smi'', ''nvcc --version''], [], [], [''conda install -c -y conda-forge xgboost''],
      [], [], [], [], []] \<and>
   (\<forall>s. import_fallback s \<longrightarrow> (\<exists>m ns c. s = import_or_install m ns c)) \<and>
   (\<forall>e w m ns c. exec e (import_or_install m ns c) w =
      (if m \<in> modules w then (None, w, [Ran (Import m ns)])
       else if m \<in> set (conda e c)
       then (None, w\<lparr>modules := modules w \<union> set (conda e c)\<rparr>,
             [Ran (Import m ns), Raised ImportError, Ran (Shell c), Ran (Import m ns)])
       else (Some ImportError, w\<lparr>modules := modules w \<union> set (conda e c)\<rparr>,
             [Ran (Import m ns), Raised ImportError, Ran (Shell c), Ran (Import m ns),
              Raised ImportError]))) \<and>
   (\<forall>nb \<in> set notebooks. \<forall>e w x.
      Raised x \<in> set (events (execs e nb w)) \<longrightarrow>
      x = ImportError \<or> outcome (execs e nb w) = Some x)"
proof (intro conjI ballI allI impI)
  show "list_all (\<lambda>nb. list_all import_fallback (try_blockss nb)) notebooks" by code_simp
  show "map (length \<circ> try_blockss) notebooks = [0, 2, 2, 1, 1, 0, 0, 2, 2]" by code_simp
  show "list_all (\<lambda>nb. try_blockss (loop_bodiess nb) = []) notebooks" by code_simp
  show "map unhandled_shells notebooks =
     [[''nvidia-smi'', ''nvcc --version''], [], [], [''conda install -c -y conda-forge xgboost''],
      [], [], [], [], []]" by code_simp
  show "\<exists>m ns c. s = import_or_install m ns c" if "import_fallback s" for s
    using that by (rule import_fallback_shape)
  show "exec e (import_or_install m ns c) w =
      (if m \<in> modules w then (None, w, [Ran (Import m ns)])
       else if m \<in> set (conda e c)
       then (None, w\<lparr>modules := modules w \<union> set (conda e c)\<rparr>,
             [Ran (Import m ns), Raised ImportError, Ran (Shell c), Ran (Import m ns)])
       else (Some ImportError, w\<lparr>modules := modules w \<union> set (conda e c)\<rparr>,
             [Ran (Import m ns), Raised ImportError, Ran (Shell c), Ran (Import m ns),
              Raised ImportError]))" for e w m ns c
    by (rule exec_import_or_install)
next
  fix nb e w x
  assume nb: "nb \<in> set notebooks" and r: "Raised x \<in> set (events (execs e nb w))"
  have "\<forall>y \<in> set (catchess nb). y = ImportError"
    using census_catches nb unfolding list_all_iff by blast
  then show "x = ImportError \<or> outcome (execs e nb w) = Some x"
    using raised_uncaught(2) [OF r] by blast
qed

text \<open>
  The theorem at the phishing notebook with an empty bucket: the first fetch raises
  \<open>FileNotFoundError\<close>, and that is how the run ends.
\<close>

theorem import_fallbacks_only_witness:
  "phishing_detection \<in> set notebooks \<and>
   Raised FileNotFoundError \<in> set (events (execs offline phishing_detection clean)) \<and>
   outcome (execs offline phishing_detection clean) = Some FileNotFoundError \<and>
   import_fallback (import_or_install ''s3fs'' [] ''conda install -c conda-forge -y s3fs'')"
proof -
  have nb: "phishing_detection \<in> set notebooks" by (simp add: notebooks_def)
  have r: "Raised FileNotFoundError \<in> set (events (execs offline phishing_detection clean))"
    by (simp add: notebook_defs offline_def run_defs CLAIR_TSV_def)
  have i: "import_fallback (import_or_install ''s3fs'' [] ''conda install -c conda-forge -y s3fs'')"
    by code_simp
  have "outcome (execs offline phishing_detection clean) = Some FileNotFoundError"
    using import_fallbacks_only [THEN conjunct2, THEN conjunct2, THEN conjunct2, THEN conjunct2,
        THEN conjunct2, THEN conjunct2, rule_format, OF nb r]
    by simp
  then show ?thesis using nb r i by simp
qed

subsection \<open>Datasets, library calls and metrics\<close>

text \<open>
  C3, as the code has it. Four notebooks read dataset files, each fetched when absent; the
  five others generate their data in memory (\<open>np.random\<close>, \<open>make_blobs\<close>,
  \<open>make_classification\<close>) and fetch nothing. Every notebook calls library functions; seven
  of them call a \<open>fit\<close>, a \<open>predict\<close> or a \<open>train_model\<close>, the XGBoost notebook (\<open>xgb.train\<close>)
  and the cyBERT notebook (its own training loop) do not. Six notebooks show an accuracy
  metric. The cyBERT, random forest, DGA and asset classification notebooks print metric
  values, the phishing notebook displays the value of \<open>evaluate_model\<close> and the asset
  classification notebook the confusion matrix. In the XGBoost notebook it is \<open>xgb.train\<close>
  that writes the AUC of every round, as the \<open>train_model\<close> of the DGA and the asset
  classification notebook write an accuracy for every epoch. The forest inference, k-means
  and nearest neighbours notebooks print the verdict of a comparison and no metric.
\<close>

theorem notebook_pipelines:
  "map (fetched \<circ> flats) notebooks =
     [[], [APACHE_SAMPLE_CSV], [CLAIR_TSV, SPAM_TSV, EASY_HAM_TSV, HARD_HAM_TSV, ENRON_TSV],
      [], [], [], [], [INPUT_CSV], [WINEVT_PREPROC_CSV]] \<and>
   map (map snd \<circ> loads) notebooks =
     [[], [Plain APACHE_SAMPLE_CSV],
      [Plain CLAIR_TSV, Plain SPAM_TSV, Plain EASY_HAM_TSV, Plain HARD_HAM_TSV, Plain ENRON_TSV],
      [], [], [], [], [Plain INPUT_CSV], [Plain WINEVT_PREPROC_CSV]] \<and>
   map generators notebooks =
     [[''np.random.rand'', ''np.random.randint'', ''np.random.randint''], [], [],
      [''make_classification''], [''make_blobs''], [''make_blobs''], [''make_classification''],
      [], []] \<and>
   list_all (\<lambda>nb. callees (flats nb) \<noteq> []) notebooks \<and>
   map (named_calls [''fit'', ''predict'', ''train_model'']) notebooks =
     [[], [],
      [''seq_classifier.train_model'', ''seq_classifier.train_model'',
       ''seq_classifier.train_model'', ''seq_classifier.train_model''],
      [''xgb_model.predict'', ''fm.predict''],
      [''kmeans_sk.fit'', ''kmeans_cuml.fit''],
      [''knn_sk.fit'', ''knn_cuml.fit''],
      [''sk_model.fit'', ''sk_model.predict'', ''cuml_model.fit'', ''cuml_model.predict'',
       ''pickled_cuml_model.predict''],
      [''dd.train_model'', ''dga_detector.predict''],
      [''ac.train_model'', ''ac.predict'']] \<and>
   map metrics_shown notebooks =
     [[],
      [(''print'', ''f1_score''), (''print'', ''accuracy_score''),
       (''print'', ''classification_report'')],
      [(''display'', ''seq_classifier.evaluate_model''),
       (''display'', ''seq_classifier.evaluate_model''),
       (''display'', ''seq_classifier.evaluate_model''),
       (''display'', ''seq_classifier.evaluate_model'')],
      [], [], [],
      [(''print'', ''accuracy_score''), (''print'', ''accuracy_score''),
       (''print'', ''accuracy_score''), (''print'', ''accuracy_score'')],
      [(''print'', ''accuracy_score''), (''print'', ''average_precision_score'')],
      [(''print'', ''f1_score''), (''display'', ''confusion_matrix'')]] \<and>
   list_all2 recorded_calls notebooks console \<and>
   map reports console =
     [[(''xgb.train'', ''auc'')], [], [], [], [], [], [],
      [(''dd.train_model'', ''Accuracy'')], [(''ac.train_model'', ''accuracy'')]] \<and>
   map (\<lambda>(nb, out). shows_metric nb out) (zip notebooks console) =
     [True, True, True, False, False, False, True, True, True]"
  by code_simp

text \<open>
  C3 as stated fails for the nearest neighbours notebook, which fetches and reads no file
  (its data comes from \<open>make_blobs\<close>) and shows no metric, neither by its own prints nor in
  what its library calls wrote; and the XGBoost notebook, which fetches no file either,
  calls none of \<open>fit\<close>, \<open>predict\<close> and \<open>train_model\<close>.
\<close>

theorem notebook_pipelines_counterexample:
  "fetched (flats nearest_neighbors_demo) = [] \<and>
   files_read (flats nearest_neighbors_demo) = [] \<and>
   generators nearest_neighbors_demo = [''make_blobs''] \<and>
   metrics_shown nearest_neighbors_demo = [] \<and>
   reports (console ! 5) = [] \<and>
   \<not> shows_metric nearest_neighbors_demo (console ! 5) \<and>
   fetched (flats xgboost_demo) = [] \<and>
   named_calls [''fit'', ''predict'', ''train_model''] xgboost_demo = []"
  by code_simp

subsection \<open>Files created\<close>

text \<open>
  C4, as the code has it. Three notebooks write a model: forest inference writes
  \<open>xgb.model\<close>, random forest pickles the cuML model to \<open>cuml_random_forest_model.sav\<close>, and
  DGA detection writes \<open>models/rnn_classifier_<timestamp>.bin\<close>. In every run of every
  notebook a file that changed at a path the notebook names holds either the S3 object of
  its own name, fetched by a download guard, or one of these models. The DGA notebook
  makes the models directory right before it saves, so that the path exists whatever the
  world was, and no other directory is made. Beside these, the libraries store files of
  their own: the cyBERT and the phishing notebook load a pretrained BERT checkpoint, which
  the library downloads into its cache when the hub has it, and nothing else enters the
  cache; and a package is installed only by one of the shell commands of the notebook. No
  written object is a metric value: metrics only reach the notebook's output.
\<close>

theorem created_files:
  "map (artifacts \<circ> flats) notebooks =
     [[], [], [], [(''bst.save_model'', ''bst'', Plain ''xgb.model'')], [], [],
      [(''pickle.dump'', ''cuml_model'', Plain ''cuml_random_forest_model.sav'')],
      [(''dd.save_model'', ''dd'', Stamped ''models'' ''rnn_classifier_'' ''.bin'')], []] \<and>
   (\<forall>nb \<in> set notebooks. \<forall>e w p.
      files (final (execs e nb w)) p = files w p \<or>
      (p \<in> set (fetched (flats nb)) \<and>
       files (final (execs e nb w)) p = Some (Object (S3_BASE_PATH @ ''/'' @ p))) \<or>
      (\<exists>(callee, src, pe) \<in> set (artifacts (flats nb)).
         p = evalp e pe \<and> files (final (execs e nb w)) p = Some (Artifact callee src))) \<and>
   take 3 (drop 17 dga_detection) =
     [make_models_dir, Call [''now''] ''datetime.now'' [] [],
      WriteFile ''dd.save_model'' ''dd'' model_filepath] \<and>
   (\<forall>e w. path_exists (final (exec e make_models_dir w)) MODELS_DIR) \<and>
   list_all (\<lambda>nb. list_all (\<lambda>(callee, src, pe). src \<notin> set (metric_targets (flats nb)))
                           (artifacts (flats nb))) notebooks \<and>
   map (made_dirs \<circ> flats) notebooks = [[], [], [], [], [], [], [], [MODELS_DIR], []] \<and>
   map (pretrained \<circ> flats) notebooks =
     [[], [(''BertForTokenClassification.from_pretrained'', ''bert-base-cased'')],
      [(''seq_classifier.init_model'', ''bert-base-uncased'')], [], [], [], [], [], []] \<and>
   (\<forall>e w ts callee name kw.
      cache (final (exec e (Pretrained ts callee name kw) w)) =
        (if name \<in> hub e then insert name (cache w) else cache w)) \<and>
   (\<forall>nb \<in> set notebooks. \<forall>e w.
      dirs (final (execs e nb w)) \<subseteq> dirs w \<union> set (made_dirs (flats nb)) \<and>
      cache (final (execs e nb w)) \<subseteq> cache w \<union> snd ` set (pretrained (flats nb)) \<and>
      modules (final (execs e nb w))
        \<subseteq> modules w \<union> (\<Union>c \<in> set (shell_commands (flats nb)). set (conda e c)))"
proof (intro conjI ballI allI)
  show "map (artifacts \<circ> flats) notebooks =
     [[], [], [], [(''bst.save_model'', ''bst'', Plain ''xgb.model'')], [], [],
      [(''pickle.dump'', ''cuml_model'', Plain ''cuml_random_forest_model.sav'')],
      [(''dd.save_model'', ''dd'', Stamped ''models'' ''rnn_classifier_'' ''.bin'')], []]"
    by code_simp
  show "take 3 (drop 17 dga_detection) =
     [make_models_dir, Call [''now''] ''datetime.now'' [] [],
      WriteFile ''dd.save_model'' ''dd'' model_filepath]"
    by code_simp
  show "list_all (\<lambda>nb. list_all (\<lambda>(callee, src, pe). src \<notin> set (metric_targets (flats nb)))
                           (artifacts (flats nb))) notebooks"
    by code_simp
  show "map (made_dirs \<circ> flats) notebooks = [[], [], [], [], [], [], [], [MODELS_DIR], []]"
    by code_simp
  show "map (pretrained \<circ> flats) notebooks =
     [[], [(''BertForTokenClassification.from_pretrained'', ''bert-base-cased'')],
      [(''seq_classifier.init_model'', ''bert-base-uncased'')], [], [], [], [], [], []]"
    by code_simp
  show "path_exists (final (exec e make_models_dir w)) MODELS_DIR" for e w
    by (rule created_dir)
  show "cache (final (exec e (Pretrained ts callee name kw) w)) =
        (if name \<in> hub e then insert name (cache w) else cache w)" for e w ts callee name kw
    by (rule exec_Pretrained_cache)
  show "dirs (final (execs e nb w)) \<subseteq> dirs w \<union> set (made_dirs (flats nb))" for nb e w
    by (rule dirs_frame(2))
  show "cache (final (execs e nb w)) \<subseteq> cache w \<union> snd ` set (pretrained (flats nb))" for nb e w
    by (rule cache_frame(2))
  show "modules (final (execs e nb w))
        \<subseteq> modules w \<union> (\<Union>c \<in> set (shell_commands (flats nb)). set (conda e c))" for nb e w
    by (rule modules_frame(2))
next
  fix nb e w p
  assume nb: "nb \<in> set notebooks"
  have "\<forall>s \<in> set (flats nb). \<forall>remote l. s = S3Get remote l \<longrightarrow> remote = S3_BASE_PATH @ ''/'' @ l"
    using census_fetch_base nb unfolding list_all_iff by fastforce
  then show "files (final (execs e nb w)) p = files w p \<or>
      (p \<in> set (fetched (flats nb)) \<and>
       files (final (execs e nb w)) p = Some (Object (S3_BASE_PATH @ ''/'' @ p))) \<or>
      (\<exists>(callee, src, pe) \<in> set (artifacts (flats nb)).
         p = evalp e pe \<and> files (final (execs e nb w)) p = Some (Artifact callee src))"
    by (rule created_by_program)
qed

text \<open>
  The theorem at the random forest notebook on a clean disk: the one file that appears is
  the pickled model.
\<close>

theorem created_files_witness:
  "random_forest_demo \<in> set notebooks \<and>
   files clean filename = None \<and>
   files (final (execs online random_forest_demo clean)) filename
     = Some (Artifact ''pickle.dump'' ''cuml_model'') \<and>
   fetched (flats random_forest_demo) = [] \<and>
   artifacts (flats random_forest_demo) = [(''pickle.dump'', ''cuml_model'', Plain filename)]"
proof -
  have nb: "random_forest_demo \<in> set notebooks" by (simp add: notebooks_def)
  have f: "fetched (flats random_forest_demo) = []" by code_simp
  have a: "artifacts (flats random_forest_demo) = [(''pickle.dump'', ''cuml_model'', Plain filename)]"
    by code_simp
  have n: "files clean filename = None" by (simp add: clean_def)
  have ch: "files (final (execs online random_forest_demo clean)) filename \<noteq> None"
    by (simp add: notebook_defs run_defs)
  have "files (final (execs online random_forest_demo clean)) filename
     = Some (Artifact ''pickle.dump'' ''cuml_model'')"
    using created_files [THEN conjunct2, THEN conjunct1, rule_format, OF nb,
        where e = online and w = clean and p = filename]
      ch n by (simp add: f a)
  then show ?thesis using nb f a n by simp
qed

text \<open>
  C4 as stated fails on a clean disk: the forest inference notebook creates \<open>xgb.model\<close>,
  which is neither of the two files the claim lists, the DGA notebook creates its dataset
  file, which is no model, and the phishing notebook leaves the checkpoint
  \<open>bert-base-uncased\<close> in the library's cache.
\<close>

theorem created_files_counterexample:
  "files clean model_path = None \<and>
   files (final (execs online forest_inference_demo clean)) model_path
     = Some (Artifact ''bst.save_model'' ''bst'') \<and>
   files clean INPUT_CSV = None \<and>
   files (final (execs online dga_detection clean)) INPUT_CSV
     = Some (Object ''rapidsai-data/cyber/clx/benign_and_dga_domains.csv'') \<and>
   cache clean = {} \<and>
   cache (final (execs online phishing_detection clean)) = {''bert-base-uncased''}"
  by code_simp

subsection \<open>Data flow through files\<close>

text \<open>
  C6, as the code has it, for the data that passes through files. The files the notebooks
  read are these. The dataset files of the four CLX notebooks, each read by
  \<open>cudf.read_csv\<close> and by no other call (the \<open>cudf.read_csv\<close> of the XGBoost notebook is in
  the branch that \<open>LOAD = False\<close> switches off). The tokenizer's vocabulary hash file and the
  pretrained BERT checkpoints, in the cyBERT and the phishing notebook. And three
  serialized models that an earlier library call of the same notebook wrote: \<open>xgb.model\<close>,
  saved by the XGBoost booster and loaded by cuML's \<open>ForestInference\<close>; the random forest
  pickle, loaded back by \<open>pickle.load\<close>; and the DGA model, saved by one \<open>DGADetector\<close> and
  loaded by a second. No other file passes from one library call to another.
\<close>

theorem model_handoffs_census:
  "map model_handoffs notebooks =
     [[], [], [],
      [(''bst.save_model'', ''bst'', Plain ''xgb.model'', ''ForestInference.load'')],
      [], [],
      [(''pickle.dump'', ''cuml_model'', Plain ''cuml_random_forest_model.sav'', ''pickle.load'')],
      [(''dd.save_model'', ''dd'', Stamped ''models'' ''rnn_classifier_'' ''.bin'',
        ''dga_detector.load_model'')],
      []] \<and>
   map (files_read \<circ> flats) notebooks =
     [[(''cudf.read_csv'', Plain ''/tmp''), (''cudf.read_csv'', Plain ''/tmp'')],
      [(''cudf.read_csv'', Plain APACHE_SAMPLE_CSV),
       (''words.str.subword_tokenize'', Plain ''resources/bert-base-cased-hash.txt''),
       (''strings.str.subword_tokenize'', Plain ''resources/bert-base-cased-hash.txt'')],
      [(''cudf.read_csv'', Plain CLAIR_TSV), (''cudf.read_csv'', Plain SPAM_TSV),
       (''cudf.read_csv'', Plain EASY_HAM_TSV), (''cudf.read_csv'', Plain HARD_HAM_TSV),
       (''cudf.read_csv'', Plain ENRON_TSV)],
      [(''ForestInference.load'', Plain model_path)],
      [], [],
      [(''pickle.load'', Plain filename)],
      [(''cudf.read_csv'', Plain INPUT_CSV), (''dga_detector.load_model'', model_filepath)],
      [(''cudf.read_csv'', Plain WINEVT_PREPROC_CSV)]] \<and>
   map (pretrained \<circ> flats) notebooks =
     [[], [(''BertForTokenClassification.from_pretrained'', ''bert-base-cased'')],
      [(''seq_classifier.init_model'', ''bert-base-uncased'')], [], [], [], [], [], []] \<and>
   map (\<lambda>nb. map (\<lambda>f. (f, readers f (flats nb))) (fetched (flats nb))) notebooks =
     [[], [(APACHE_SAMPLE_CSV, [''cudf.read_csv''])],
      [(CLAIR_TSV, [''cudf.read_csv'']), (SPAM_TSV, [''cudf.read_csv'']),
       (EASY_HAM_TSV, [''cudf.read_csv'']), (HARD_HAM_TSV, [''cudf.read_csv'']),
       (ENRON_TSV, [''cudf.read_csv''])],
      [], [], [], [],
      [(INPUT_CSV, [''cudf.read_csv''])], [(WINEVT_PREPROC_CSV, [''cudf.read_csv''])]]"
  by code_simp

text \<open>
  C6 as stated fails for the forest inference notebook, where the model file XGBoost saved
  is consumed by a second estimator, and for the DGA notebook.
\<close>

theorem model_handoffs_counterexample:
  "model_handoffs forest_inference_demo =
     [(''bst.save_model'', ''bst'', Plain ''xgb.model'', ''ForestInference.load'')] \<and>
   model_handoffs dga_detection =
     [(''dd.save_model'', ''dd'', Stamped ''models'' ''rnn_classifier_'' ''.bin'',
       ''dga_detector.load_model'')]"
  by code_simp

subsection \<open>Dataset files are only read\<close>

text \<open>
  C7. For every file a notebook reads with \<open>cudf.read_csv\<close>, in every environment and from
  every initial world: if the file existed, the run leaves it as it was; in any case the
  file is at the end what it was at the start or the S3 object of its name, fetched by the
  download; and every path a notebook writes a model to differs from it.
\<close>

theorem datasets_only_read:
  "\<forall>nb \<in> set notebooks. \<forall>(callee, pe) \<in> set (files_read (flats nb)).
     callee = ''cudf.read_csv'' \<longrightarrow>
     (\<forall>e w.
        (path_exists w (evalp e pe) \<longrightarrow>
           files (final (execs e nb w)) (evalp e pe) = files w (evalp e pe)) \<and>
        (files (final (execs e nb w)) (evalp e pe) = files w (evalp e pe) \<or>
         files (final (execs e nb w)) (evalp e pe) = Some (Object (S3_BASE_PATH @ ''/'' @ evalp e pe))) \<and>
        (\<forall>(writer, src, pe') \<in> set (artifacts (flats nb)). evalp e pe' \<noteq> evalp e pe))"
proof (intro ballI, clarify)
  fix nb callee pe e w
  assume nb: "nb \<in> set notebooks" and r: "(''cudf.read_csv'', pe) \<in> set (files_read (flats nb))"
  from census_reads nb r obtain f where f: "plain pe = Some f"
    and od: "only_downloaded nb f"
    and art: "list_all (\<lambda>(c, src, pe'). \<not> may_be pe' f) (artifacts (flats nb))"
    unfolding list_all_iff by (fastforce split: option.splits)
  have pe: "evalp e pe = f" using f by (simp add: plain_Some)
  have g: "guardeds nb" using od by (simp add: only_downloaded_def)
  note only = only_downloaded_creates [OF od, of e]
  have 1: "path_exists w f \<longrightarrow> files (final (execs e nb w)) f = files w f"
    using dataset_untouched(1) [OF g only] by blast
  have 2: "files (final (execs e nb w)) f = files w f \<or>
           files (final (execs e nb w)) f = Some (Object (S3_BASE_PATH @ ''/'' @ f))"
    by (rule dataset_content [OF only])
  have 3: "\<forall>(writer, src, pe') \<in> set (artifacts (flats nb)). evalp e pe' \<noteq> f"
    using art may_be_evalp unfolding list_all_iff by fastforce
  show "(path_exists w (evalp e pe) \<longrightarrow>
           files (final (execs e nb w)) (evalp e pe) = files w (evalp e pe)) \<and>
        (files (final (execs e nb w)) (evalp e pe) = files w (evalp e pe) \<or>
         files (final (execs e nb w)) (evalp e pe) = Some (Object (S3_BASE_PATH @ ''/'' @ evalp e pe))) \<and>
        (\<forall>(writer, src, pe') \<in> set (artifacts (flats nb)). evalp e pe' \<noteq> evalp e pe)"
    using 1 2 3 unfolding pe by blast
qed

text \<open>The theorem at the cyBERT notebook with its dataset on disk.\<close>

theorem datasets_only_read_witness:
  "cybert_example_training \<in> set notebooks \<and>
   (''cudf.read_csv'', Plain APACHE_SAMPLE_CSV) \<in> set (files_read (flats cybert_example_training)) \<and>
   path_exists (on_disk APACHE_SAMPLE_CSV) APACHE_SAMPLE_CSV \<and>
   files (final (execs online cybert_example_training (on_disk APACHE_SAMPLE_CSV))) APACHE_SAMPLE_CSV
     = Some (Other 0)"
proof -
  have nb: "cybert_example_training \<in> set notebooks" by (simp add: notebooks_def)
  have r: "(''cudf.read_csv'', Plain APACHE_SAMPLE_CSV) \<in> set (files_read (flats cybert_example_training))"
    by code_simp
  have ex: "path_exists (on_disk APACHE_SAMPLE_CSV) APACHE_SAMPLE_CSV"
    by (simp add: on_disk_def path_exists_def)
  have "files (final (execs online cybert_example_training (on_disk APACHE_SAMPLE_CSV))) APACHE_SAMPLE_CSV
        = files (on_disk APACHE_SAMPLE_CSV) APACHE_SAMPLE_CSV"
    using bspec [OF bspec [OF datasets_only_read nb] r, unfolded prod.case, rule_format, OF refl,
        where e = online and w = "on_disk APACHE_SAMPLE_CSV"] ex
    by simp
  then show ?thesis using nb r ex by (simp add: on_disk_def)
qed

subsection \<open>Parallelism\<close>

text \<open>
  C10, as the code has it. No notebook imports a module that creates threads or processes
  or synchronizes them, and the only processes started are the shell escapes (\<open>conda
  install\<close>, \<open>nvidia-smi\<close>, \<open>nvcc\<close>), which run one at a time. Four notebooks do pass a
  parallelism setting to a library: \<open>n_gpus = 1\<close> in the parameters of \<open>xgb.train\<close>,
  \<open>n_jobs = -1\<close> to scikit-learn's \<open>KMeans\<close> and \<open>NearestNeighbors\<close>, and the cyBERT notebook
  wraps its model in \<open>nn.DataParallel\<close>.
\<close>

theorem parallelism_census:
  "map parallel_settings notebooks =
     [[(''xgb.train'', ''n_gpus'', Lit ''1'')], [], [], [],
      [(''skKMeans'', ''n_jobs'', Lit ''-1'')],
      [(''skNearestNeighbors'', ''n_jobs'', Lit ''-1'')], [], [], []] \<and>
   map parallel_wraps notebooks = [[], [''nn.DataParallel''], [], [], [], [], [], [], []] \<and>
   list_all (\<lambda>nb. concurrency_imports nb = []) notebooks \<and>
   map (shell_commands \<circ> flats) notebooks =
     [[''nvidia-smi'', ''nvcc --version''],
      [''conda install -c conda-forge -y seqeval'', ''conda install -c conda-forge -y s3fs''],
      [''conda install -c rapidsai -y clx'', ''conda install -c conda-forge -y s3fs''],
      [''conda install -c conda-forge -y pytest'', ''conda install -c -y conda-forge xgboost''],
      [''conda install -c conda-forge -y matplotlib''], [], [],
      [''conda install -c conda-forge -y s3fs'', ''conda install -c rapidsai -y clx''],
      [''conda install -c conda-forge -y s3fs'', ''conda install -c rapidsai -y clx'']]"
  by code_simp

text \<open>
  C10 as stated fails for the nearest neighbours notebook, which passes \<open>n_jobs = -1\<close> to
  scikit-learn.
\<close>

theorem parallelism_counterexample:
  "parallel_settings nearest_neighbors_demo = [(''skNearestNeighbors'', ''n_jobs'', Lit ''-1'')]"
  by code_simp

end
